theory Spec2Isabelle
  imports Complex_Main
begin

section \<open>Common Python notions\<close>

text \<open>
  A Python string is truthy when it is not empty; \<open>dict.get\<close> gives \<open>None\<close>
  for a missing key, and \<open>None\<close> is falsy. \<open>truthy\<close> is the test
  \<open>if x:\<close> on the result of \<open>d.get(k)\<close>.
\<close>

definition truthy :: "string option \<Rightarrow> bool" where
  "truthy v = (case v of None \<Rightarrow> False | Some s \<Rightarrow> s \<noteq> [])"

text \<open>\<open>s.startswith(p)\<close>\<close>

fun startswith :: "string \<Rightarrow> string \<Rightarrow> bool" where
  "startswith s [] = True"
| "startswith [] (p # ps) = False"
| "startswith (c # cs) (p # ps) = (c = p \<and> startswith cs ps)"

text \<open>\<open>s.split(c)\<close> for a one-character separator: never the empty list.\<close>

fun split_on :: "char \<Rightarrow> string \<Rightarrow> string list" where
  "split_on c [] = [[]]"
| "split_on c (x # xs) =
     (if x = c then [] # split_on c xs
      else (case split_on c xs of
              [] \<Rightarrow> [[x]]
            | w # ws \<Rightarrow> (x # w) # ws))"

text \<open>\<open>xs[i]\<close> for \<open>i \<ge> 0\<close>: \<open>None\<close> stands for IndexError.\<close>

definition index_opt :: "'a list \<Rightarrow> nat \<Rightarrow> 'a option" where
  "index_opt xs i = (if i < length xs then Some (xs ! i) else None)"

section \<open>Target resolution: sre-brain/handler.py\<close>

text \<open>
  The two AWS lookups the resolver makes. A call either raises (\<open>Inl\<close>, with
  the exception's text) or returns the part of the response the code reads: for
  \<open>describe_auto_scaling_groups\<close> the list \<open>AutoScalingGroups\<close>, each group
  given by its \<open>Instances\<close>; for \<open>describe_target_health\<close> the list
  \<open>TargetHealthDescriptions\<close>. A response that lacks a key the code indexes
  raises KeyError inside the same \<open>try\<close> and so is one of the \<open>Inl\<close> cases.
\<close>

record asg_instance =
  InstanceId :: string
  LifecycleState :: string

record target_health_description =
  TargetId :: string
  TargetHealthState :: string

record resolver_backend =
  describe_auto_scaling_groups :: "string \<Rightarrow> string + asg_instance list list"
  describe_target_health :: "string \<Rightarrow> string + target_health_description list"
  env_AWS_REGION :: "string option"

text \<open>
  The alarm payload (the JSON of the SNS message). \<open>Dimensions\<close> is
  \<open>Trigger.Dimensions\<close>, a list of name/value pairs, empty when absent.
\<close>

record alarm_data =
  AlarmName :: "string option"
  AlarmDescription :: "string option"
  NewStateValue :: "string option"
  Dimensions :: "(string \<times> string) list"
  Region :: "string option"
  AWSAccountId :: "string option"
  AlarmArn :: "string option"

text \<open>
  \<open>{d["name"]: d["value"] for d in trigger.get("Dimensions", [])}\<close>: a later pair
  with the same name replaces an earlier one.
\<close>

fun dimensions_dict :: "(string \<times> string) list \<Rightarrow> (string \<rightharpoonup> string) \<Rightarrow> (string \<rightharpoonup> string)" where
  "dimensions_dict [] m = m"
| "dimensions_dict ((k, v) # ds) m = dimensions_dict ds (m(k \<mapsto> v))"

text \<open>The loop of \<open>get_unhealthy_targets\<close> over the descriptions.\<close>

fun unhealthy_loop :: "target_health_description list \<Rightarrow> string list \<Rightarrow> string list" where
  "unhealthy_loop [] acc = acc"
| "unhealthy_loop (d # ds) acc =
     (if TargetHealthState d \<noteq> ''healthy''
      then (if startswith (TargetId d) ''i-''
            then unhealthy_loop ds (acc @ [TargetId d])
            else unhealthy_loop ds acc)
      else unhealthy_loop ds acc)"

definition get_unhealthy_targets :: "resolver_backend \<Rightarrow> string \<Rightarrow> string \<Rightarrow> string \<Rightarrow> string list" where
  "get_unhealthy_targets aws tg_suffix region account_id =
     (let tg_arn = ''arn:aws:elasticloadbalancing:'' @ region @ '':'' @ account_id @ '':'' @ tg_suffix
      in case describe_target_health aws tg_arn of
           Inl e \<Rightarrow> []
         | Inr descriptions \<Rightarrow> unhealthy_loop descriptions [])"

text \<open>
  The account id of the target-group branch: \<open>AWSAccountId\<close>, and when that is
  falsy and \<open>AlarmArn\<close> is present, the fifth field of the ARN (IndexError is
  passed over, leaving the falsy value).
\<close>

definition resolve_account_id :: "alarm_data \<Rightarrow> string option" where
  "resolve_account_id a =
     (if \<not> truthy (AWSAccountId a) then
        (case AlarmArn a of
           None \<Rightarrow> AWSAccountId a
         | Some arn \<Rightarrow>
             (case index_opt (split_on CHR '':'' arn) 4 of
                None \<Rightarrow> AWSAccountId a
              | Some acct \<Rightarrow> Some acct))
      else AWSAccountId a)"

definition resolve_region :: "resolver_backend \<Rightarrow> alarm_data \<Rightarrow> string" where
  "resolve_region aws a =
     (case Region a of
        Some r \<Rightarrow> r
      | None \<Rightarrow> (case env_AWS_REGION aws of Some r \<Rightarrow> r | None \<Rightarrow> ''ap-south-1''))"

definition get_target_instances :: "resolver_backend \<Rightarrow> alarm_data \<Rightarrow> string list" where
  "get_target_instances aws a =
     (let dimensions = dimensions_dict (Dimensions a) Map.empty;
          asg_name = dimensions ''AutoScalingGroupName''
      in if truthy asg_name then
           (case describe_auto_scaling_groups aws (the asg_name) of
              Inl e \<Rightarrow> []
            | Inr [] \<Rightarrow> []
            | Inr (g # gs) \<Rightarrow> map InstanceId (filter (\<lambda>i. LifecycleState i = ''InService'') g))
         else
           (let tg_suffix = dimensions ''TargetGroup''
            in if truthy tg_suffix then
                 (let region = resolve_region aws a;
                      account_id = resolve_account_id a
                  in if \<not> truthy account_id then []
                     else get_unhealthy_targets aws (the tg_suffix) region (the account_id))
               else
                 (let instance_id = dimensions ''InstanceId''
                  in if truthy instance_id then [the instance_id] else [])))"

section \<open>The incident store: a DynamoDB table keyed by incident_id\<close>

text \<open>
  JSON values, as \<open>json.loads\<close> gives them. The advisor's answer is such a value,
  and the command it suggests is stored and dispatched as it came. Numbers are
  integers here.
\<close>

datatype json =
    JNull
  | JBool bool
  | JNum int
  | JStr string
  | JArr "json list"
  | JObj "(string \<times> json) list"

text \<open>Python truthiness of a JSON value (\<open>x or default\<close>).\<close>

fun json_truthy :: "json \<Rightarrow> bool" where
  "json_truthy JNull = False"
| "json_truthy (JBool b) = b"
| "json_truthy (JNum n) = (n \<noteq> 0)"
| "json_truthy (JStr s) = (s \<noteq> [])"
| "json_truthy (JArr xs) = (xs \<noteq> [])"
| "json_truthy (JObj kvs) = (kvs \<noteq> [])"

record timeline_entry =
  event :: string
  timestamp :: string
  detail :: string

text \<open>
  An item of the table without its key: every attribute may be absent
  (\<open>None\<close>). Timestamps are the strings \<open>datetime.now(timezone.utc).isoformat()\<close>
  returned; the functions below take each clock reading as an argument.
\<close>

record incident =
  alarm_name :: "string option"
  alarm_description :: "string option"
  instance_id :: "string option"
  diagnostics :: "string option"
  ai_suggestion :: "json option"
  ai_reasoning :: "json option"
  status :: "string option"
  created_at :: "string option"
  updated_at :: "string option"
  remediation_output :: "string option"
  custom_command :: "string option"
  timeline :: "timeline_entry list option"

type_synonym incident_table = "string \<rightharpoonup> incident"

definition empty_item :: incident where
  "empty_item = \<lparr> alarm_name = None, alarm_description = None, instance_id = None,
     diagnostics = None, ai_suggestion = None, ai_reasoning = None, status = None,
     created_at = None, updated_at = None, remediation_output = None,
     custom_command = None, timeline = None \<rparr>"

text \<open>
  \<open>table.update_item(Key=..., UpdateExpression="SET ...")\<close> with no condition
  expression: DynamoDB applies the assignments to the item with that key, and to a
  new item holding only the key when there is none.
\<close>

definition update_item :: "incident_table \<Rightarrow> string \<Rightarrow> (incident \<Rightarrow> incident) \<Rightarrow> incident_table" where
  "update_item t k f = t(k \<mapsto> f (case t k of None \<Rightarrow> empty_item | Some i \<Rightarrow> i))"

text \<open>\<open>update_incident_status\<close> of sre-brain/handler.py.\<close>

definition update_incident_status :: "string \<Rightarrow> incident_table \<Rightarrow> string \<Rightarrow> string \<Rightarrow> string \<Rightarrow> incident_table" where
  "update_incident_status now t iid st output =
     update_item t iid (\<lambda>i. i\<lparr> status := Some st, remediation_output := Some output, updated_at := Some now \<rparr>)"

text \<open>
  \<open>_append_timeline\<close> of dashboard/app.py:
  \<open>SET #tl = list_append(if_not_exists(#tl, :empty), :entry)\<close>.
\<close>

definition append_timeline :: "string \<Rightarrow> incident_table \<Rightarrow> string \<Rightarrow> string \<Rightarrow> string \<Rightarrow> incident_table" where
  "append_timeline now t iid ev det =
     update_item t iid (\<lambda>i. i\<lparr> timeline :=
        Some ((case timeline i of None \<Rightarrow> [] | Some entries \<Rightarrow> entries) @ [\<lparr> event = ev, timestamp = now, detail = det \<rparr>]) \<rparr>)"

section \<open>Remote execution: the SSM calls\<close>

text \<open>
  \<open>send_command\<close> gives the exception's text or the command id;
  \<open>get_command_invocation\<close> is asked repeatedly, and its third argument counts
  the polls already made for that command. An answer without the keys the code
  indexes raises inside the same \<open>try\<close> and is an \<open>Inl\<close> case.
\<close>

record invocation =
  Status :: string
  StandardOutputContent :: "string option"
  StandardErrorContent :: "string option"

record ssm_backend =
  send_command :: "string \<Rightarrow> json list \<Rightarrow> string + string"
  get_command_invocation :: "string \<Rightarrow> string \<Rightarrow> nat \<Rightarrow> string + invocation"

definition terminal_statuses :: "string list" where
  "terminal_statuses = [''Success'', ''Failed'', ''Cancelled'', ''TimedOut'']"

section \<open>Operator gateway: dashboard/app.py\<close>

datatype http_error =
    HTTPException nat string
  | KeyError string

record broadcast_msg =
  msg_type :: string
  msg_incident_id :: string
  msg_status :: string
  msg_output :: "string option"

text \<open>
  The gateway's world: the table, the messages broadcast to subscribers, the
  background tasks created by \<open>asyncio.create_task\<close> (incident, host, command)
  and the commands sent through SSM (host, commands).
\<close>

record dash_state =
  table :: incident_table
  broadcasts :: "broadcast_msg list"
  tasks :: "(string \<times> string \<times> json) list"
  sent_commands :: "(string \<times> json list) list"

record approve_response =
  resp_status :: string
  resp_message :: string

text \<open>
  \<open>approve_incident\<close>. \<open>now\<close> is the clock reading of the function itself,
  \<open>now_tl\<close> the one taken inside \<open>_append_timeline\<close>. A missing
  \<open>status\<close> or \<open>ai_suggestion\<close> raises KeyError before anything is
  written; a missing \<open>instance_id\<close> raises it after the two writes.
\<close>

definition approve_incident :: "string \<Rightarrow> string \<Rightarrow> dash_state \<Rightarrow> string \<Rightarrow> string option \<Rightarrow> (http_error + approve_response) \<times> dash_state" where
  "approve_incident now now_tl s iid body_custom_command =
     (case table s iid of
        None \<Rightarrow> (Inl (HTTPException 404 ''Incident not found''), s)
      | Some inc \<Rightarrow>
          (case status inc of
             None \<Rightarrow> (Inl (KeyError ''status''), s)
           | Some st \<Rightarrow>
               if st \<noteq> ''pending_approval''
               then (Inl (HTTPException 400 (''Cannot approve: status is '' @ [CHR 0x27] @ st @ [CHR 0x27])), s)
               else
                 (let used_custom = truthy body_custom_command
                  in case (if used_custom then Some (JStr (the body_custom_command)) else ai_suggestion inc) of
                       None \<Rightarrow> (Inl (KeyError ''ai_suggestion''), s)
                     | Some command \<Rightarrow>
                         (let t1 = update_item (table s) iid
                                     (\<lambda>i. if used_custom
                                          then i\<lparr> status := Some ''executing'', updated_at := Some now,
                                                   custom_command := body_custom_command \<rparr>
                                          else i\<lparr> status := Some ''executing'', updated_at := Some now \<rparr>);
                              det = (if used_custom then ''Custom command used'' else ''AI-suggested command approved'');
                              t2 = append_timeline now_tl t1 iid ''approved'' det;
                              s2 = s\<lparr> table := t2 \<rparr>
                          in case instance_id inc of
                               None \<Rightarrow> (Inl (KeyError ''instance_id''), s2)
                             | Some host \<Rightarrow>
                                 (Inr \<lparr> resp_status = ''executing'',
                                        resp_message = ''Command dispatched. Watch for updates.'' \<rparr>,
                                  s2\<lparr> tasks := tasks s2 @ [(iid, host, command)] \<rparr>)))))"

text \<open>
  The polling loop of \<open>_execute_remediation\<close>: \<open>for _ in range(60)\<close>, each
  round sleeping two seconds and asking once. \<open>n\<close> rounds are left and \<open>k\<close>
  polls were made. The result is the first terminal answer, if any.
\<close>

primrec poll_rounds :: "ssm_backend \<Rightarrow> string \<Rightarrow> string \<Rightarrow> nat \<Rightarrow> nat \<Rightarrow> invocation option" where
  "poll_rounds ssm cid host 0 k = None"
| "poll_rounds ssm cid host (Suc n) k =
     (case get_command_invocation ssm cid host k of
        Inl e \<Rightarrow> poll_rounds ssm cid host n (Suc k)
      | Inr ivc \<Rightarrow>
          if Status ivc \<in> set terminal_statuses then Some ivc
          else poll_rounds ssm cid host n (Suc k))"

text \<open>
  \<open>inv.get("StandardOutputContent", "") or inv.get("StandardErrorContent", "No output")\<close>
\<close>

definition remediation_text :: "invocation \<Rightarrow> string" where
  "remediation_text ivc =
     (let out = (case StandardOutputContent ivc of None \<Rightarrow> [] | Some x \<Rightarrow> x)
      in if out \<noteq> [] then out
         else (case StandardErrorContent ivc of None \<Rightarrow> ''No output'' | Some x \<Rightarrow> x))"

text \<open>
  \<open>_execute_remediation\<close>, the background task. \<open>now\<close> is the reading of
  the status write, \<open>now_tl\<close> the one of the timeline append that follows it.
  The store's writes are taken to succeed.
\<close>

definition execute_remediation :: "string \<Rightarrow> string \<Rightarrow> ssm_backend \<Rightarrow> dash_state \<Rightarrow> string \<Rightarrow> string \<Rightarrow> json \<Rightarrow> dash_state" where
  "execute_remediation now now_tl ssm s iid host command =
     (let s0 = s\<lparr> sent_commands := sent_commands s @ [(host, [command])] \<rparr>
      in case send_command ssm host [command] of
           Inl e \<Rightarrow>
             (let t1 = update_item (table s0) iid
                         (\<lambda>i. i\<lparr> status := Some ''failed'', remediation_output := Some e, updated_at := Some now \<rparr>);
                  t2 = append_timeline now_tl t1 iid ''failed'' (take 200 e)
              in s0\<lparr> table := t2,
                     broadcasts := broadcasts s0 @
                       [\<lparr> msg_type = ''incident_update'', msg_incident_id = iid,
                          msg_status = ''failed'', msg_output = Some e \<rparr>] \<rparr>)
         | Inr command_id \<Rightarrow>
             (case poll_rounds ssm command_id host 60 0 of
                Some ivc \<Rightarrow>
                  (let final_status = (if Status ivc = ''Success'' then ''completed'' else ''failed'');
                       output = remediation_text ivc;
                       t1 = update_item (table s0) iid
                              (\<lambda>i. i\<lparr> status := Some final_status, remediation_output := Some output,
                                       updated_at := Some now \<rparr>);
                       t2 = append_timeline now_tl t1 iid final_status (take 200 output)
                   in s0\<lparr> table := t2,
                          broadcasts := broadcasts s0 @
                            [\<lparr> msg_type = ''incident_update'', msg_incident_id = iid,
                               msg_status = final_status, msg_output = Some (take 500 output) \<rparr>] \<rparr>)
              | None \<Rightarrow>
                  (let t1 = update_item (table s0) iid
                              (\<lambda>i. i\<lparr> status := Some ''timeout'', updated_at := Some now \<rparr>);
                       t2 = append_timeline now_tl t1 iid ''timeout'' ''SSM command timed out after 2 minutes''
                   in s0\<lparr> table := t2,
                          broadcasts := broadcasts s0 @
                            [\<lparr> msg_type = ''incident_update'', msg_incident_id = iid,
                               msg_status = ''timeout'', msg_output = None \<rparr>] \<rparr>)))"

text \<open>\<open>reject_incident\<close>: no lookup, two writes, one broadcast.\<close>

definition reject_incident :: "string \<Rightarrow> string \<Rightarrow> dash_state \<Rightarrow> string \<Rightarrow> (http_error + string) \<times> dash_state" where
  "reject_incident now now_tl s iid =
     (let t1 = update_item (table s) iid (\<lambda>i. i\<lparr> status := Some ''rejected'', updated_at := Some now \<rparr>);
          t2 = append_timeline now_tl t1 iid ''rejected'' ''Operator rejected remediation''
      in (Inr ''rejected'',
          s\<lparr> table := t2,
             broadcasts := broadcasts s @
               [\<lparr> msg_type = ''incident_update'', msg_incident_id = iid,
                  msg_status = ''rejected'', msg_output = None \<rparr>] \<rparr>))"

section \<open>Aggregate statistics: get_incident_stats of dashboard/app.py\<close>













text \<open>\<open>round(x, 1)\<close>: to one decimal, a tie going to the even digit.\<close>

definition round_half_even :: "rat \<Rightarrow> int" where
  "round_half_even x =
     (let f = \<lfloor>x\<rfloor>; d = x - of_int f
      in if d < 1 / 2 then f
         else if 1 / 2 < d then f + 1
         else if even f then f else f + 1)"









section \<open>Remediation advisor: ask_genai and fallback_remediation of sre-brain/handler.py\<close>

text \<open>\<open>needle in hay\<close> on strings.\<close>

fun contains :: "string \<Rightarrow> string \<Rightarrow> bool" where
  "contains [] needle = (needle = [])"
| "contains (c # cs) needle = (startswith (c # cs) needle \<or> contains cs needle)"

text \<open>
  \<open>s.strip()\<close>, on the ASCII white space, and \<open>s.replace(old, new)\<close> for
  a pattern that is not empty (the source's two patterns are literals).
\<close>

definition is_space :: "char \<Rightarrow> bool" where
  "is_space c = (c \<in> set [CHR 0x20, CHR 0x09, CHR 0x0A, CHR 0x0B, CHR 0x0C, CHR 0x0D,
                             CHR 0x1C, CHR 0x1D, CHR 0x1E, CHR 0x1F])"

definition strip :: "string \<Rightarrow> string" where
  "strip s = rev (dropWhile is_space (rev (dropWhile is_space s)))"

function replace_all :: "string \<Rightarrow> string \<Rightarrow> string \<Rightarrow> string" where
  "replace_all [] old new = []"
| "replace_all (c # cs) old new =
     (if old \<noteq> [] \<and> startswith (c # cs) old
      then new @ replace_all (drop (length old) (c # cs)) old new
      else c # replace_all cs old new)"
  by pat_completeness auto
termination
  by (relation "measure (\<lambda>(s, old, new). length s)") auto

text \<open>
  What \<open>urllib.request.urlopen\<close> and the reading of its answer come to: the
  decoded body; an HTTPError with its code and its body (none when \<open>e.fp\<close> is
  falsy, \<open>Inl\<close> when reading or decoding the body raises); or any other
  exception.
\<close>

datatype http_outcome =
    HttpOk string
  | HTTPError nat "(string + string) option"
  | OtherException string

record http_request =
  req_url :: string
  req_headers :: "(string \<times> string) list"
  req_data :: json

text \<open>
  The advisor's surroundings: two environment variables, the answer of
  \<open>s3_client.list_buckets\<close> (the exception's text or the bucket names), the
  transport, and \<open>json.loads\<close> (\<open>None\<close> where it raises).
\<close>

record advisor_env =
  GEMINI_API_KEY :: "string option"
  GEMINI_MODEL :: "string option"
  list_buckets :: "string + string list"
  urlopen :: "http_request \<Rightarrow> http_outcome"
  json_loads :: "string \<Rightarrow> json option"

definition get_log_bucket :: "advisor_env \<Rightarrow> string" where
  "get_log_bucket env =
     (case list_buckets env of
        Inl e \<Rightarrow> ''sre-incident-logs-archive''
      | Inr names \<Rightarrow>
          (case find (\<lambda>n. startswith n ''sre-incident-logs-archive'') names of
             Some n \<Rightarrow> n
           | None \<Rightarrow> ''sre-incident-logs-archive''))"

definition fallback_remediation :: "advisor_env \<Rightarrow> string \<Rightarrow> json" where
  "fallback_remediation env issue_type =
     (if contains issue_type ''Disk'' then
        JObj [(''reasoning'', JStr ''Disk usage critical. Archiving garbage.log to S3 and clearing file to free space.''),
              (''command'', JStr (''export PATH=$PATH:/usr/local/bin; aws s3 cp /var/log/garbage.log s3://''
                                  @ get_log_bucket env
                                  @ ''/garbage.log-$(date +%s) && > /var/log/garbage.log''))]
      else if contains issue_type ''Nginx'' then
        JObj [(''reasoning'', JStr ''Nginx service is down. Restarting service to restore availability.''),
              (''command'', JStr ''systemctl restart nginx'')]
      else if contains issue_type ''Memory'' then
        JObj [(''reasoning'', JStr ''Memory exhaustion detected. Terminating stress-ng process.''),
              (''command'', JStr (''pkill -f 'stress-ng' || pkill -f 'python3'' @ [CHR 0x27]))]
      else
        JObj [(''reasoning'', JStr ''Unknown issue type. No specific remediation.''),
              (''command'', JStr (''echo 'No remediation found'' @ [CHR 0x27]))])"

text \<open>\<open>d[k]\<close> on a parsed JSON value: \<open>None\<close> where Python raises.\<close>

fun json_item :: "json \<Rightarrow> string \<Rightarrow> json option" where
  "json_item (JObj kvs) k = map_of (rev kvs) k"
| "json_item v k = None"

text \<open>
  \<open>result["candidates"][0]["content"]["parts"][0]["text"]\<close>, which must be a
  string for \<open>.strip()\<close>; \<open>None\<close> where any step raises.
\<close>

definition generated_text :: "json \<Rightarrow> string option" where
  "generated_text result =
     (case json_item result ''candidates'' of
        Some (JArr (cand # cands)) \<Rightarrow>
          (case json_item cand ''content'' of
             Some content \<Rightarrow>
               (case json_item content ''parts'' of
                  Some (JArr (part # parts)) \<Rightarrow>
                    (case json_item part ''text'' of
                       Some (JStr t) \<Rightarrow> Some t
                     | _ \<Rightarrow> None)
                | _ \<Rightarrow> None)
           | None \<Rightarrow> None)
      | _ \<Rightarrow> None)"

definition code_fence :: string where
  "code_fence = replicate 3 (CHR 0x60)"

definition clean_text :: "string \<Rightarrow> string" where
  "clean_text generated =
     strip (replace_all (replace_all (strip generated) (code_fence @ ''json'') []) code_fence [])"

definition gemini_request :: "advisor_env \<Rightarrow> string \<Rightarrow> string \<Rightarrow> http_request" where
  "gemini_request env context_text issue_type =
     (let api_key = the (GEMINI_API_KEY env);
          bucket_name = get_log_bucket env;
          system_instruction =
            ''You are a Linux Sysadmin. The S3 bucket for log archival is '' @ [CHR 0x27] @ bucket_name @ [CHR 0x27]
            @ ''. Return ONLY a JSON object with keys 'reasoning' (brief explanation of why this command fixes the issue) and 'command' (the bash command itself). No markdown, no explanations outside JSON.'';
          prompt = system_instruction @ [CHR 0x0A, CHR 0x0A] @ ''Context:'' @ [CHR 0x0A] @ context_text
                   @ [CHR 0x0A, CHR 0x0A] @ ''Issue: '' @ issue_type
                   @ [CHR 0x0A, CHR 0x0A] @ ''Provide the specific remediation JSON.'';
          model_name = (case GEMINI_MODEL env of None \<Rightarrow> ''gemini-1.5-pro'' | Some m \<Rightarrow> m);
          base_url = ''https://generativelanguage.googleapis.com/v1beta/models/'' @ model_name @ '':generateContent'';
          data = JObj [(''contents'', JArr [JObj [(''parts'', JArr [JObj [(''text'', JStr prompt)]])]])]
      in if startswith api_key ''AIza''
         then \<lparr> req_url = base_url @ ''?key='' @ api_key,
                req_headers = [(''Content-Type'', ''application/json'')],
                req_data = data \<rparr>
         else \<lparr> req_url = base_url,
                req_headers = [(''Content-Type'', ''application/json''),
                               (''Authorization'', ''Bearer '' @ api_key)],
                req_data = data \<rparr>)"

text \<open>
  \<open>ask_genai\<close>: \<open>Inl\<close> is an exception that leaves the function, which only
  the reading of an HTTPError's body can raise (inside the \<open>except\<close> clause).
\<close>

definition ask_genai :: "advisor_env \<Rightarrow> string \<Rightarrow> string \<Rightarrow> string + json" where
  "ask_genai env context_text issue_type =
     (if \<not> truthy (GEMINI_API_KEY env) \<or> startswith (the (GEMINI_API_KEY env)) ''dummy''
      then Inr (fallback_remediation env issue_type)
      else
        (case urlopen env (gemini_request env context_text issue_type) of
           HttpOk body \<Rightarrow>
             (case json_loads env body of
                None \<Rightarrow> Inr (fallback_remediation env issue_type)
              | Some result \<Rightarrow>
                  (case generated_text result of
                     None \<Rightarrow> Inr (fallback_remediation env issue_type)
                   | Some generated \<Rightarrow>
                       (case json_loads env (clean_text generated) of
                          None \<Rightarrow> Inr (fallback_remediation env issue_type)
                        | Some v \<Rightarrow> Inr v)))
         | HTTPError code fp \<Rightarrow>
             (case fp of
                Some (Inl exn) \<Rightarrow> Inl exn
              | _ \<Rightarrow> Inr (fallback_remediation env issue_type))
         | OtherException e \<Rightarrow> Inr (fallback_remediation env issue_type)))"

section \<open>Remote executor: send_ssm_command and wait_for_command of sre-brain/handler.py\<close>

definition send_ssm_command :: "ssm_backend \<Rightarrow> string \<Rightarrow> json list \<Rightarrow> string option" where
  "send_ssm_command ssm host commands =
     (case send_command ssm host commands of
        Inl e \<Rightarrow> None
      | Inr command_id \<Rightarrow> Some command_id)"

text \<open>
  The loop of \<open>wait_for_command\<close>: \<open>retries\<close> rounds are left; \<open>polls\<close>
  calls of \<open>get_command_invocation\<close> were made and \<open>slept\<close> seconds spent
  in \<open>time.sleep(2)\<close>. The result carries both counters.
\<close>

primrec wait_rounds :: "ssm_backend \<Rightarrow> string \<Rightarrow> string \<Rightarrow> nat \<Rightarrow> nat \<Rightarrow> nat \<Rightarrow> invocation option \<times> nat \<times> nat" where
  "wait_rounds ssm cid host 0 polls slept = (None, polls, slept)"
| "wait_rounds ssm cid host (Suc retries) polls slept =
     (case get_command_invocation ssm cid host polls of
        Inl e \<Rightarrow> wait_rounds ssm cid host retries (Suc polls) (slept + 2)
      | Inr response \<Rightarrow>
          if Status response \<in> set terminal_statuses then (Some response, Suc polls, slept)
          else wait_rounds ssm cid host retries (Suc polls) (slept + 2))"

definition wait_for_command :: "ssm_backend \<Rightarrow> string option \<Rightarrow> string \<Rightarrow> invocation option \<times> nat \<times> nat" where
  "wait_for_command ssm command_id host =
     (if \<not> truthy command_id then (None, 0, 0)
      else wait_rounds ssm (the command_id) host 60 0 0)"

section \<open>The alarm handler: lambda_handler of sre-brain/handler.py\<close>

text \<open>\<open>str(n)\<close> for \<open>n \<ge> 0\<close>.\<close>

fun str_nat :: "nat \<Rightarrow> string" where
  "str_nat n =
     (if n < 10 then [char_of (48 + n)]
      else str_nat (n div 10) @ [char_of (48 + n mod 10)])"

text \<open>
  \<open>write_incident\<close>: \<open>put_item\<close> replaces the whole item. The three
  \<open>x or ""\<close> are kept.
\<close>

definition write_incident :: "string \<Rightarrow> incident_table \<Rightarrow> string \<Rightarrow> string \<Rightarrow> string \<Rightarrow> string \<Rightarrow> string \<Rightarrow> json \<Rightarrow> json \<Rightarrow> string \<Rightarrow> incident_table" where
  "write_incident now t iid a_name a_desc host diag suggestion reasoning st =
     t(iid \<mapsto>
        \<lparr> alarm_name = Some a_name,
          alarm_description = Some a_desc,
          instance_id = Some host,
          diagnostics = Some diag,
          ai_suggestion = Some (if json_truthy suggestion then suggestion else JStr []),
          ai_reasoning = Some (if json_truthy reasoning then reasoning else JStr []),
          status = Some st,
          created_at = Some now,
          updated_at = Some now,
          remediation_output = Some [],
          custom_command = None,
          timeline = Some
            [\<lparr> event = ''created'', timestamp = now, detail = ''Incident created from alarm: '' @ a_name \<rparr>,
             \<lparr> event = ''diagnostics'', timestamp = now, detail = ''Diagnostics executed successfully'' \<rparr>,
             \<lparr> event = ''ai_analysis'', timestamp = now, detail = ''AI generated remediation plan'' \<rparr>] \<rparr>)"

text \<open>
  The handler's surroundings. The clock is read through two functions of the
  number of readings made before: \<open>int(time.time())\<close> and
  \<open>datetime.now(timezone.utc).isoformat()\<close>.
\<close>

record handler_env =
  APPROVAL_MODE :: bool
  resolver :: resolver_backend
  ssm_client :: ssm_backend
  advisor :: advisor_env
  time_time :: "nat \<Rightarrow> nat"
  utcnow :: "nat \<Rightarrow> string"

text \<open>
  The handler's world: the table, the clock readings made, the commands sent
  through SSM, the calls of \<open>ask_genai\<close> (diagnostic text and issue type) and
  the polls made.
\<close>

record handler_state =
  incidents :: incident_table
  clock_reads :: nat
  ssm_sent :: "(string \<times> json list) list"
  advisor_calls :: "(string \<times> string) list"
  polls_made :: nat

record target_result =
  res_instance :: string
  res_status :: string
  res_incident_id :: "string option"

datatype response_body = BodyText string | BodyResults "target_result list"

record lambda_response =
  statusCode :: nat
  body :: response_body

text \<open>The classification of the alarm name: diagnostic commands and issue type.\<close>

definition classify :: "string \<Rightarrow> (string list \<times> string) option" where
  "classify a_name =
     (if contains a_name ''Disk'' then
        Some ([''df -h /'', ''ls -lRh /var/log/ | head -n 20''], ''Disk Critical'')
      else if contains a_name ''Nginx'' \<or> contains a_name ''Service'' then
        Some ([''systemctl status nginx'', ''journalctl -u nginx -n 20''], ''Nginx Down'')
      else if contains a_name ''Memory'' then
        Some ([''free -m'', ''ps aux --sort=-%mem | head -n 10''], ''Memory Exhaustion'')
      else None)"

text \<open>\<open>ai_result.get(k, default)\<close> on a dictionary.\<close>

definition dict_get :: "(string \<times> json) list \<Rightarrow> string \<Rightarrow> json \<Rightarrow> json" where
  "dict_get kvs k dflt = (case map_of (rev kvs) k of None \<Rightarrow> dflt | Some v \<Rightarrow> v)"

text \<open>
  The auto-execute branch of one round, after the advice: the incident is
  written as executing, the command sent and awaited, the outcome written.
\<close>

definition auto_execute :: "handler_env \<Rightarrow> handler_state \<Rightarrow> string \<Rightarrow> string \<Rightarrow> string \<Rightarrow> string \<Rightarrow> string \<Rightarrow> json \<Rightarrow> json \<Rightarrow> target_result \<times> handler_state" where
  "auto_execute env s incident_id a_name a_desc host diag remediation_cmd reasoning =
     (let s1 = s\<lparr> incidents := write_incident (utcnow env (clock_reads s)) (incidents s) incident_id
                                    a_name a_desc host diag remediation_cmd reasoning ''executing'',
                  clock_reads := Suc (clock_reads s) \<rparr>;
          fix_id = send_ssm_command (ssm_client env) host [remediation_cmd];
          s2 = s1\<lparr> ssm_sent := ssm_sent s1 @ [(host, [remediation_cmd])] \<rparr>;
          waited = wait_for_command (ssm_client env) fix_id host;
          s3 = s2\<lparr> polls_made := polls_made s2 + fst (snd waited) \<rparr>
      in case fst waited of
           Some fix_result \<Rightarrow>
             (let final_status = (if Status fix_result = ''Success'' then ''completed'' else ''failed'');
                  fix_stdout = (case StandardOutputContent fix_result of None \<Rightarrow> [] | Some x \<Rightarrow> x);
                  fix_stderr = (case StandardErrorContent fix_result of None \<Rightarrow> [] | Some x \<Rightarrow> x);
                  output = (if fix_stdout \<noteq> [] then fix_stdout
                            else if fix_stderr \<noteq> [] then fix_stderr else ''No output'')
              in (\<lparr> res_instance = host, res_status = final_status, res_incident_id = None \<rparr>,
                  s3\<lparr> incidents := update_incident_status (utcnow env (clock_reads s3)) (incidents s3)
                                      incident_id final_status output,
                      clock_reads := Suc (clock_reads s3) \<rparr>))
         | None \<Rightarrow>
             (\<lparr> res_instance = host, res_status = ''timeout'', res_incident_id = None \<rparr>,
              s3\<lparr> incidents := update_incident_status (utcnow env (clock_reads s3)) (incidents s3)
                                  incident_id ''timeout'' ''Command timed out'',
                  clock_reads := Suc (clock_reads s3) \<rparr>))"

text \<open>
  One round of the loop over the targets: \<open>Inl\<close> is an exception (the handler
  re-raises it), \<open>Inr None\<close> a \<open>continue\<close>, \<open>Inr (Some r)\<close> the entry
  appended to \<open>results\<close>.
\<close>

definition process_target :: "handler_env \<Rightarrow> string \<Rightarrow> string \<Rightarrow> string \<Rightarrow> handler_state \<Rightarrow> (string + target_result option) \<times> handler_state" where
  "process_target env a_name a_desc host s =
     (let incident_id = str_nat (time_time env (clock_reads s)) @ ''_'' @ a_name @ ''_'' @ host;
          s1 = s\<lparr> clock_reads := Suc (clock_reads s) \<rparr>
      in case classify a_name of
           None \<Rightarrow> (Inr None, s1)
         | Some (diag_commands, issue_type) \<Rightarrow>
             (let cmd_id = send_ssm_command (ssm_client env) host (map JStr diag_commands);
                  s2 = s1\<lparr> ssm_sent := ssm_sent s1 @ [(host, map JStr diag_commands)] \<rparr>
              in if \<not> truthy cmd_id then (Inr None, s2)
                 else
                   (let waited = wait_for_command (ssm_client env) cmd_id host;
                        s3 = s2\<lparr> polls_made := polls_made s2 + fst (snd waited) \<rparr>;
                        diag = (case fst waited of
                                  Some cmd_result \<Rightarrow>
                                    (case StandardOutputContent cmd_result of
                                       None \<Rightarrow> ''No Output''
                                     | Some x \<Rightarrow> x)
                                | None \<Rightarrow> ''Diagnostic Timeout'');
                        s4 = s3\<lparr> advisor_calls := advisor_calls s3 @ [(diag, issue_type)] \<rparr>
                    in case ask_genai (advisor env) diag issue_type of
                         Inl exn \<Rightarrow> (Inl exn, s4)
                       | Inr (JObj kvs) \<Rightarrow>
                           (let remediation_cmd = dict_get kvs ''command'' (JStr (''echo 'Error'' @ [CHR 0x27]));
                                reasoning = dict_get kvs ''reasoning'' (JStr ''No reasoning provided.'')
                            in if APPROVAL_MODE env then
                                 (Inr (Some \<lparr> res_instance = host, res_status = ''pending_approval'',
                                              res_incident_id = Some incident_id \<rparr>),
                                  s4\<lparr> incidents := write_incident (utcnow env (clock_reads s4)) (incidents s4)
                                         incident_id a_name a_desc host diag remediation_cmd reasoning
                                         ''pending_approval'',
                                      clock_reads := Suc (clock_reads s4) \<rparr>)
                               else
                                 (case auto_execute env s4 incident_id a_name a_desc host diag
                                         remediation_cmd reasoning of
                                    (r, s5) \<Rightarrow> (Inr (Some r), s5)))
                       | Inr other \<Rightarrow> (Inl ''AttributeError'', s4))))"

fun process_targets :: "handler_env \<Rightarrow> string \<Rightarrow> string \<Rightarrow> string list \<Rightarrow> target_result list \<Rightarrow> handler_state \<Rightarrow> (string + target_result list) \<times> handler_state" where
  "process_targets env a_name a_desc [] results s = (Inr results, s)"
| "process_targets env a_name a_desc (host # hosts) results s =
     (case process_target env a_name a_desc host s of
        (Inl exn, s') \<Rightarrow> (Inl exn, s')
      | (Inr None, s') \<Rightarrow> process_targets env a_name a_desc hosts results s'
      | (Inr (Some r), s') \<Rightarrow> process_targets env a_name a_desc hosts (results @ [r]) s')"

text \<open>
  \<open>lambda_handler\<close>. The event is the alarm payload found at
  \<open>event["Records"][0]["Sns"]["Message"]\<close>, or \<open>None\<close> when that path or its
  JSON is broken, which raises.
\<close>

definition lambda_handler :: "handler_env \<Rightarrow> alarm_data option \<Rightarrow> handler_state \<Rightarrow> (string + lambda_response) \<times> handler_state" where
  "lambda_handler env sns_event s =
     (case sns_event of
        None \<Rightarrow> (Inl ''malformed event'', s)
      | Some a \<Rightarrow>
          (let a_name = (case AlarmName a of None \<Rightarrow> ''Unknown'' | Some n \<Rightarrow> n);
               a_desc = (case AlarmDescription a of None \<Rightarrow> [] | Some d \<Rightarrow> d);
               new_state = (case NewStateValue a of None \<Rightarrow> ''ALARM'' | Some v \<Rightarrow> v)
           in if new_state \<noteq> ''ALARM''
              then (Inr \<lparr> statusCode = 200, body = BodyText ''Ignored: not in ALARM state'' \<rparr>, s)
              else
                (let target_instances = get_target_instances (resolver env) a
                 in if target_instances = []
                    then (Inr \<lparr> statusCode = 400,
                                body = BodyText ([CHR 0x22] @ ''No targets found'' @ [CHR 0x22]) \<rparr>, s)
                    else
                      (case process_targets env a_name a_desc target_instances [] s of
                         (Inl exn, s') \<Rightarrow> (Inl exn, s')
                       | (Inr results, s') \<Rightarrow>
                           (Inr \<lparr> statusCode = 200, body = BodyResults results \<rparr>, s')))))"

section \<open>Reading the store, and sample data\<close>

text \<open>The item under a key, the empty item when there is none.\<close>

definition item_of :: "incident_table \<Rightarrow> string \<Rightarrow> incident" where
  "item_of t k = (case t k of None \<Rightarrow> empty_item | Some i \<Rightarrow> i)"

text \<open>
  An incident as \<open>write_incident\<close> stores it, in a given status, and a
  gateway world holding it under \<open>inc-1\<close>.
\<close>

definition example_incident :: "string \<Rightarrow> incident" where
  "example_incident st =
     \<lparr> alarm_name = Some ''Disk-Critical-ASG'', alarm_description = Some [],
       instance_id = Some ''i-123'', diagnostics = Some ''92% used'',
       ai_suggestion = Some (JStr ''echo fixed''), ai_reasoning = Some (JStr ''archive the log''),
       status = Some st,
       created_at = Some ''2024-01-15T10:00:00+00:00'',
       updated_at = Some ''2024-01-15T10:00:00+00:00'',
       remediation_output = Some [], custom_command = None, timeline = Some [] \<rparr>"

definition example_state :: "string \<Rightarrow> dash_state" where
  "example_state st =
     \<lparr> table = [''inc-1'' \<mapsto> example_incident st], broadcasts = [], tasks = [], sent_commands = [] \<rparr>"

text \<open>
  Three executors: one whose command never reaches a terminal status, one whose
  command succeeds at the first poll, one that refuses every command.
\<close>

definition never_done_ssm :: ssm_backend where
  "never_done_ssm =
     \<lparr> send_command = (\<lambda>host commands. Inr ''cmd-1''),
       get_command_invocation = (\<lambda>cid host k.
          Inr \<lparr> Status = ''InProgress'', StandardOutputContent = None, StandardErrorContent = None \<rparr>) \<rparr>"

definition done_ssm :: ssm_backend where
  "done_ssm =
     \<lparr> send_command = (\<lambda>host commands. Inr ''cmd-1''),
       get_command_invocation = (\<lambda>cid host k.
          Inr \<lparr> Status = ''Success'', StandardOutputContent = Some ''fixed'', StandardErrorContent = None \<rparr>) \<rparr>"

definition refusing_ssm :: ssm_backend where
  "refusing_ssm =
     \<lparr> send_command = (\<lambda>host commands. Inl ''InvalidInstanceId''),
       get_command_invocation = (\<lambda>cid host k. Inl ''InvocationDoesNotExist'') \<rparr>"

text \<open>
  An executor whose command fails at the third poll: the first poll raises
  (the invocation is not registered yet), the second finds the command in
  progress.
\<close>

definition slow_failing_ssm :: ssm_backend where
  "slow_failing_ssm =
     \<lparr> send_command = (\<lambda>host commands. Inr ''cmd-2''),
       get_command_invocation = (\<lambda>cid host k.
          if k = 0 then Inl ''InvocationDoesNotExist''
          else if k = 1 then
            Inr \<lparr> Status = ''InProgress'', StandardOutputContent = None, StandardErrorContent = None \<rparr>
          else
            Inr \<lparr> Status = ''Failed'', StandardOutputContent = Some [],
                  StandardErrorContent = Some ''No space left on device'' \<rparr>) \<rparr>"

text \<open>The value of a dimension in the dictionary the resolver builds.\<close>

definition alarm_dimension :: "alarm_data \<Rightarrow> string \<Rightarrow> string option" where
  "alarm_dimension a k = dimensions_dict (Dimensions a) Map.empty k"


text \<open>
  An account with one Auto Scaling group \<open>web-asg\<close> of two instances, one of
  them in service, and one target group with four targets.
\<close>

definition example_resolver :: resolver_backend where
  "example_resolver =
     \<lparr> describe_auto_scaling_groups = (\<lambda>name.
          if name = ''web-asg''
          then Inr [[\<lparr> InstanceId = ''i-1'', LifecycleState = ''InService'' \<rparr>,
                     \<lparr> InstanceId = ''i-2'', LifecycleState = ''Terminating'' \<rparr>]]
          else if name = ''old-asg'' then Inr []
          else Inl ''AccessDenied''),
       describe_target_health = (\<lambda>arn.
          if arn = ''arn:aws:elasticloadbalancing:us-east-1:123456789012:targetgroup/web/abc''
          then Inr [\<lparr> TargetId = ''i-7'', TargetHealthState = ''unhealthy'' \<rparr>,
                    \<lparr> TargetId = ''10.0.0.5'', TargetHealthState = ''unhealthy'' \<rparr>,
                    \<lparr> TargetId = ''i-8'', TargetHealthState = ''healthy'' \<rparr>,
                    \<lparr> TargetId = ''i-9'', TargetHealthState = ''draining'' \<rparr>]
          else Inl ''TargetGroupNotFound''),
       env_AWS_REGION = Some ''us-east-1'' \<rparr>"

definition example_alarm :: "(string \<times> string) list \<Rightarrow> alarm_data" where
  "example_alarm dims =
     \<lparr> AlarmName = Some ''Disk-Critical-ASG'', AlarmDescription = Some ''disk above 90%'',
       NewStateValue = Some ''ALARM'', Dimensions = dims, Region = None,
       AWSAccountId = Some ''123456789012'', AlarmArn = None \<rparr>"

text \<open>
  An advisor without credentials, a handler around a given executor, and a
  world in which nothing has happened yet.
\<close>

definition offline_advisor :: advisor_env where
  "offline_advisor =
     \<lparr> GEMINI_API_KEY = None, GEMINI_MODEL = None,
       list_buckets = Inr [''sre-incident-logs-archive-42''],
       urlopen = (\<lambda>req. OtherException ''unreachable''),
       json_loads = (\<lambda>s. None) \<rparr>"

definition example_env :: "ssm_backend \<Rightarrow> handler_env" where
  "example_env ssm =
     \<lparr> APPROVAL_MODE = False, resolver = example_resolver, ssm_client = ssm,
       advisor = offline_advisor,
       time_time = (\<lambda>n. 1705312800 + n),
       utcnow = (\<lambda>n. ''2024-01-15T10:00:0'' @ str_nat n @ ''+00:00'') \<rparr>"

definition example_world :: handler_state where
  "example_world =
     \<lparr> incidents = Map.empty, clock_reads = 0, ssm_sent = [], advisor_calls = [], polls_made = 0 \<rparr>"







section \<open>Basic facts\<close>

lemma truthy_Some [simp]: "truthy (Some s) = (s \<noteq> [])"
  by (simp add: truthy_def)

lemma truthy_None [simp]: "truthy None = False"
  by (simp add: truthy_def)

lemma update_item_same: "update_item t k f k = Some (f (case t k of None \<Rightarrow> empty_item | Some i \<Rightarrow> i))"
  by (simp add: update_item_def)

lemma update_item_other: "k' \<noteq> k \<Longrightarrow> update_item t k f k' = t k'"
  by (simp add: update_item_def)

lemma update_item_present: "t k = Some i \<Longrightarrow> update_item t k f = t(k \<mapsto> f i)"
  by (simp add: update_item_def)

lemma append_timeline_present:
  "t k = Some i \<Longrightarrow>
   append_timeline now t k ev d =
     t(k \<mapsto> i\<lparr> timeline := Some ((case timeline i of None \<Rightarrow> [] | Some es \<Rightarrow> es)
                                   @ [\<lparr> event = ev, timestamp = now, detail = d \<rparr>]) \<rparr>)"
  by (simp add: append_timeline_def update_item_present)

lemma approve_pending:
  assumes "table s iid = Some inc" and "status inc = Some ''pending_approval''"
    and "instance_id inc = Some host"
    and "(if truthy cc then Some (JStr (the cc)) else ai_suggestion inc) = Some command"
  shows "approve_incident now now_tl s iid cc =
     (Inr \<lparr> resp_status = ''executing'', resp_message = ''Command dispatched. Watch for updates.'' \<rparr>,
      s\<lparr> table := (table s)(iid \<mapsto>
             inc\<lparr> status := Some ''executing'', updated_at := Some now,
                  custom_command := (if truthy cc then cc else custom_command inc),
                  timeline := Some ((case timeline inc of None \<Rightarrow> [] | Some es \<Rightarrow> es)
                     @ [\<lparr> event = ''approved'', timestamp = now_tl,
                          detail = (if truthy cc then ''Custom command used''
                                    else ''AI-suggested command approved'') \<rparr>]) \<rparr>),
         tasks := tasks s @ [(iid, host, command)] \<rparr>)"
proof (cases "truthy cc")
  case True
  with assms show ?thesis
    by (simp add: approve_incident_def Let_def update_item_present append_timeline_present)
next
  case False
  with assms show ?thesis
    by (simp add: approve_incident_def Let_def update_item_present append_timeline_present)
qed

lemma exec_sent:
  "sent_commands (execute_remediation now now_tl ssm s iid host command)
     = sent_commands s @ [(host, [command])]"
  by (simp add: execute_remediation_def Let_def split: sum.splits option.splits)

section \<open>Approve: the two refusals\<close>

text \<open>
  Claim C4. For every incident id, \<open>approve_incident\<close> answers 404 (incident not
  found) when the table has no item under the id, and 400 with the current
  status in its message when the item's status is not \<open>pending_approval\<close>. In
  both cases the world it returns is the world it was given: no item, task,
  broadcast or sent command has changed.
\<close>

theorem approve_incident_failures_leave_store:
  "(table s iid = None \<longrightarrow>
      approve_incident now now_tl s iid cc = (Inl (HTTPException 404 ''Incident not found''), s))
   \<and> (\<forall>inc st. table s iid = Some inc \<and> status inc = Some st \<and> st \<noteq> ''pending_approval'' \<longrightarrow>
      approve_incident now now_tl s iid cc =
        (Inl (HTTPException 400 (''Cannot approve: status is '' @ [CHR 0x27] @ st @ [CHR 0x27])), s))"
  by (simp add: approve_incident_def)

theorem approve_incident_failures_leave_store_witness:
  "approve_incident ''2024-01-15T10:05:00+00:00'' ''2024-01-15T10:05:01+00:00''
      (example_state ''completed'') ''inc-9'' None
     = (Inl (HTTPException 404 ''Incident not found''), example_state ''completed'')
   \<and> approve_incident ''2024-01-15T10:05:00+00:00'' ''2024-01-15T10:05:01+00:00''
      (example_state ''completed'') ''inc-1'' None
     = (Inl (HTTPException 400 (''Cannot approve: status is '' @ [CHR 0x27] @ ''completed'' @ [CHR 0x27])),
        example_state ''completed'')"
  using approve_incident_failures_leave_store
    [of "example_state ''completed''" "''inc-9''" "''2024-01-15T10:05:00+00:00''"
        "''2024-01-15T10:05:01+00:00''" None]
    approve_incident_failures_leave_store
    [of "example_state ''completed''" "''inc-1''" "''2024-01-15T10:05:00+00:00''"
        "''2024-01-15T10:05:01+00:00''" None]
  by (simp add: example_state_def example_incident_def)

section \<open>Approve with an empty custom command\<close>

text \<open>
  Claim C10 as stated fails in its words \<^emph>\<open>never an empty command\<close>. For an
  advisor answer whose command is the empty string, \<open>write_incident\<close> stores the
  empty string as \<open>ai_suggestion\<close>; \<open>approve_incident\<close> with an empty
  \<open>custom_command\<close> then creates the task for that empty command, and the task
  sends it.
\<close>

theorem approve_empty_suggestion_counterexample:
  "ai_suggestion (item_of (write_incident ''2024-01-15T10:00:00+00:00'' Map.empty ''inc-1''
        ''Disk-Critical-ASG'' ''disk above 90%'' ''i-123'' ''92% used'' (JStr []) (JStr ''nothing to do'')
        ''pending_approval'') ''inc-1'') = Some (JStr [])
   \<and> tasks (snd (approve_incident ''2024-01-15T10:05:00+00:00'' ''2024-01-15T10:05:01+00:00''
        \<lparr> table = write_incident ''2024-01-15T10:00:00+00:00'' Map.empty ''inc-1''
             ''Disk-Critical-ASG'' ''disk above 90%'' ''i-123'' ''92% used'' (JStr []) (JStr ''nothing to do'')
             ''pending_approval'',
          broadcasts = [], tasks = [], sent_commands = [] \<rparr> ''inc-1'' (Some [])))
     = [(''inc-1'', ''i-123'', JStr [])]
   \<and> sent_commands (execute_remediation ''2024-01-15T10:05:09+00:00'' ''2024-01-15T10:05:10+00:00'' done_ssm
        (snd (approve_incident ''2024-01-15T10:05:00+00:00'' ''2024-01-15T10:05:01+00:00''
           \<lparr> table = write_incident ''2024-01-15T10:00:00+00:00'' Map.empty ''inc-1''
                ''Disk-Critical-ASG'' ''disk above 90%'' ''i-123'' ''92% used'' (JStr []) (JStr ''nothing to do'')
                ''pending_approval'',
             broadcasts = [], tasks = [], sent_commands = [] \<rparr> ''inc-1'' (Some [])))
        ''inc-1'' ''i-123'' (JStr []))
     = [(''i-123'', [JStr []])]"
  by (simp add: exec_sent)
     (simp add: approve_incident_def Let_def write_incident_def item_of_def
        update_item_def append_timeline_def)

text \<open>
  Claim C10, amended. An empty \<open>custom_command\<close> is treated as an absent one: the two
  calls of \<open>approve_incident\<close> give the same answer and the same world. On a
  pending incident the task created carries the stored suggestion as it is
  stored, be it empty; the item's \<open>custom_command\<close> stays as it was, and the
  timeline entry says that the AI-suggested command was approved.
\<close>

theorem approve_empty_custom_command_is_absent:
  "approve_incident now now_tl s iid (Some []) = approve_incident now now_tl s iid None
   \<and> (\<forall>inc host cmd. table s iid = Some inc \<and> status inc = Some ''pending_approval''
         \<and> instance_id inc = Some host \<and> ai_suggestion inc = Some cmd \<longrightarrow>
       (\<exists>s'. approve_incident now now_tl s iid (Some []) =
               (Inr \<lparr> resp_status = ''executing'', resp_message = ''Command dispatched. Watch for updates.'' \<rparr>, s')
            \<and> tasks s' = tasks s @ [(iid, host, cmd)]
            \<and> map_option custom_command (table s' iid) = Some (custom_command inc)
            \<and> map_option timeline (table s' iid) =
                Some (Some ((case timeline inc of None \<Rightarrow> [] | Some es \<Rightarrow> es)
                   @ [\<lparr> event = ''approved'', timestamp = now_tl,
                        detail = ''AI-suggested command approved'' \<rparr>]))))"
proof -
  have a: "approve_incident now now_tl s iid (Some []) = approve_incident now now_tl s iid None"
    by (simp add: approve_incident_def Let_def split: option.splits)
  have b: "\<exists>s'. approve_incident now now_tl s iid (Some []) =
               (Inr \<lparr> resp_status = ''executing'', resp_message = ''Command dispatched. Watch for updates.'' \<rparr>, s')
            \<and> tasks s' = tasks s @ [(iid, host, cmd)]
            \<and> map_option custom_command (table s' iid) = Some (custom_command inc)
            \<and> map_option timeline (table s' iid) =
                Some (Some ((case timeline inc of None \<Rightarrow> [] | Some es \<Rightarrow> es)
                   @ [\<lparr> event = ''approved'', timestamp = now_tl,
                        detail = ''AI-suggested command approved'' \<rparr>]))"
    if "table s iid = Some inc" "status inc = Some ''pending_approval''"
       "instance_id inc = Some host" "ai_suggestion inc = Some cmd" for inc host cmd
    using approve_pending [OF that(1) that(2) that(3), of "Some []" cmd now now_tl] that(4)
    by simp
  from a b show ?thesis by blast
qed

theorem approve_empty_custom_command_is_absent_witness:
  "approve_incident ''2024-01-15T10:05:00+00:00'' ''2024-01-15T10:05:01+00:00'' (example_state ''pending_approval'') ''inc-1'' (Some [])
     = approve_incident ''2024-01-15T10:05:00+00:00'' ''2024-01-15T10:05:01+00:00'' (example_state ''pending_approval'') ''inc-1'' None
   \<and> fst (approve_incident ''2024-01-15T10:05:00+00:00'' ''2024-01-15T10:05:01+00:00'' (example_state ''pending_approval'') ''inc-1'' (Some []))
     = Inr \<lparr> resp_status = ''executing'', resp_message = ''Command dispatched. Watch for updates.'' \<rparr>
   \<and> tasks (snd (approve_incident ''2024-01-15T10:05:00+00:00'' ''2024-01-15T10:05:01+00:00'' (example_state ''pending_approval'') ''inc-1'' (Some [])))
     = [(''inc-1'', ''i-123'', JStr ''echo fixed'')]
   \<and> map_option custom_command
        (table (snd (approve_incident ''2024-01-15T10:05:00+00:00'' ''2024-01-15T10:05:01+00:00'' (example_state ''pending_approval'') ''inc-1'' (Some []))) ''inc-1'')
     = Some None
   \<and> map_option timeline
        (table (snd (approve_incident ''2024-01-15T10:05:00+00:00'' ''2024-01-15T10:05:01+00:00'' (example_state ''pending_approval'') ''inc-1'' (Some []))) ''inc-1'')
     = Some (Some [\<lparr> event = ''approved'', timestamp = ''2024-01-15T10:05:01+00:00'',
                      detail = ''AI-suggested command approved'' \<rparr>])"
  using approve_empty_custom_command_is_absent
    [of "''2024-01-15T10:05:00+00:00''" "''2024-01-15T10:05:01+00:00''"
        "example_state ''pending_approval''" "''inc-1''", THEN conjunct1]
    approve_empty_custom_command_is_absent
    [of "''2024-01-15T10:05:00+00:00''" "''2024-01-15T10:05:01+00:00''"
        "example_state ''pending_approval''" "''inc-1''", THEN conjunct2, rule_format,
     where inc = "example_incident ''pending_approval''" and host = "''i-123''"
       and cmd = "JStr ''echo fixed''"]
  by (auto simp: example_state_def example_incident_def)


lemma item_of_update_item: "item_of (update_item t k f) k = f (item_of t k)"
  by (simp add: item_of_def update_item_def)

lemma item_of_append_timeline:
  "item_of (append_timeline now t k ev d) k =
     (item_of t k)\<lparr> timeline := Some ((case timeline (item_of t k) of None \<Rightarrow> [] | Some es \<Rightarrow> es)
                                   @ [\<lparr> event = ev, timestamp = now, detail = d \<rparr>]) \<rparr>"
  by (simp add: append_timeline_def item_of_update_item)

lemma poll_rounds_never:
  "(\<And>j. case get_command_invocation ssm cid host j of
            Inl e \<Rightarrow> True
          | Inr r \<Rightarrow> Status r \<notin> set terminal_statuses)
   \<Longrightarrow> poll_rounds ssm cid host n k = None"
proof (induction n arbitrary: k)
  case 0
  show ?case by simp
next
  case (Suc n)
  from Suc.prems [of k] Suc.IH [OF Suc.prems, of "Suc k"] show ?case
    by (auto split: sum.splits)
qed

lemma poll_rounds_Some:
  "poll_rounds ssm cid host n k = Some r \<Longrightarrow>
   \<exists>j<n. get_command_invocation ssm cid host (k + j) = Inr r \<and> Status r \<in> set terminal_statuses"
proof (induction n arbitrary: k)
  case 0
  then show ?case by simp
next
  case (Suc n)
  show ?case
  proof (cases "get_command_invocation ssm cid host k")
    case (Inl e)
    with Suc.prems have "poll_rounds ssm cid host n (Suc k) = Some r" by simp
    from Suc.IH [OF this] obtain j where "j < n"
      "get_command_invocation ssm cid host (Suc k + j) = Inr r" "Status r \<in> set terminal_statuses"
      by blast
    then have "Suc j < Suc n \<and> get_command_invocation ssm cid host (k + Suc j) = Inr r
               \<and> Status r \<in> set terminal_statuses" by simp
    then show ?thesis by blast
  next
    case (Inr x)
    show ?thesis
    proof (cases "Status x \<in> set terminal_statuses")
      case True
      with Inr Suc.prems have "x = r" by simp
      with Inr True have "0 < Suc n \<and> get_command_invocation ssm cid host (k + 0) = Inr r
               \<and> Status r \<in> set terminal_statuses" by simp
      then show ?thesis by blast
    next
      case False
      with Inr Suc.prems have "poll_rounds ssm cid host n (Suc k) = Some r" by simp
      from Suc.IH [OF this] obtain j where "j < n"
        "get_command_invocation ssm cid host (Suc k + j) = Inr r" "Status r \<in> set terminal_statuses"
        by blast
      then have "Suc j < Suc n \<and> get_command_invocation ssm cid host (k + Suc j) = Inr r
               \<and> Status r \<in> set terminal_statuses" by simp
      then show ?thesis by blast
    qed
  qed
qed

lemma exec_dispatch_error:
  assumes "send_command ssm host [command] = Inl e"
  shows "item_of (table (execute_remediation now now_tl ssm s iid host command)) iid =
     (item_of (table s) iid)\<lparr> status := Some ''failed'', remediation_output := Some e,
        updated_at := Some now,
        timeline := Some ((case timeline (item_of (table s) iid) of None \<Rightarrow> [] | Some es \<Rightarrow> es)
           @ [\<lparr> event = ''failed'', timestamp = now_tl, detail = take 200 e \<rparr>]) \<rparr>"
  using assms
  by (simp add: execute_remediation_def Let_def item_of_append_timeline item_of_update_item)

lemma exec_terminal:
  assumes "send_command ssm host [command] = Inr cid"
    and "poll_rounds ssm cid host 60 0 = Some r"
  shows "item_of (table (execute_remediation now now_tl ssm s iid host command)) iid =
     (item_of (table s) iid)\<lparr>
        status := Some (if Status r = ''Success'' then ''completed'' else ''failed''),
        remediation_output := Some (remediation_text r),
        updated_at := Some now,
        timeline := Some ((case timeline (item_of (table s) iid) of None \<Rightarrow> [] | Some es \<Rightarrow> es)
           @ [\<lparr> event = (if Status r = ''Success'' then ''completed'' else ''failed''),
                timestamp = now_tl, detail = take 200 (remediation_text r) \<rparr>]) \<rparr>"
  using assms
  by (simp add: execute_remediation_def Let_def item_of_append_timeline item_of_update_item)

lemma exec_timeout:
  assumes "send_command ssm host [command] = Inr cid"
    and "poll_rounds ssm cid host 60 0 = None"
  shows "item_of (table (execute_remediation now now_tl ssm s iid host command)) iid =
     (item_of (table s) iid)\<lparr> status := Some ''timeout'', updated_at := Some now,
        timeline := Some ((case timeline (item_of (table s) iid) of None \<Rightarrow> [] | Some es \<Rightarrow> es)
           @ [\<lparr> event = ''timeout'', timestamp = now_tl,
                detail = ''SSM command timed out after 2 minutes'' \<rparr>]) \<rparr>"
  using assms
  by (simp add: execute_remediation_def Let_def item_of_append_timeline item_of_update_item)

lemma exec_updated_at:
  "updated_at (item_of (table (execute_remediation now now_tl ssm s iid host command)) iid) = Some now"
proof (cases "send_command ssm host [command]")
  case (Inl e)
  then show ?thesis by (simp add: exec_dispatch_error)
next
  case (Inr cid)
  then show ?thesis
    by (cases "poll_rounds ssm cid host 60 0") (simp_all add: exec_timeout exec_terminal)
qed

lemma never_done_polls: "poll_rounds never_done_ssm cid host n k = None"
  by (rule poll_rounds_never) (simp add: never_done_ssm_def terminal_statuses_def)

lemma poll_rounds_first:
  "get_command_invocation ssm cid host k = Inr r \<Longrightarrow> Status r \<in> set terminal_statuses \<Longrightarrow> 0 < n
   \<Longrightarrow> poll_rounds ssm cid host n k = Some r"
  by (cases n) simp_all

lemma done_send: "send_command done_ssm host cmds = Inr ''cmd-1''"
  by (simp add: done_ssm_def)

lemma done_polls:
  "poll_rounds done_ssm cid host 60 0 =
     Some \<lparr> Status = ''Success'', StandardOutputContent = Some ''fixed'', StandardErrorContent = None \<rparr>"
  by (rule poll_rounds_first) (simp_all add: done_ssm_def terminal_statuses_def)

lemma exec_status:
  "status (item_of (table (execute_remediation now now_tl ssm s iid host command)) iid) =
     Some (case send_command ssm host [command] of
             Inl e \<Rightarrow> ''failed''
           | Inr cid \<Rightarrow>
               (case poll_rounds ssm cid host 60 0 of
                  None \<Rightarrow> ''timeout''
                | Some r \<Rightarrow> if Status r = ''Success'' then ''completed'' else ''failed''))"
proof (cases "send_command ssm host [command]")
  case (Inl e)
  then show ?thesis by (simp add: exec_dispatch_error)
next
  case (Inr cid)
  then show ?thesis
    by (cases "poll_rounds ssm cid host 60 0") (simp_all add: exec_timeout exec_terminal)
qed

lemma exec_output:
  "remediation_output (item_of (table (execute_remediation now now_tl ssm s iid host command)) iid) =
     (case send_command ssm host [command] of
        Inl e \<Rightarrow> Some e
      | Inr cid \<Rightarrow>
          (case poll_rounds ssm cid host 60 0 of
             None \<Rightarrow> remediation_output (item_of (table s) iid)
           | Some r \<Rightarrow> Some (remediation_text r)))"
proof (cases "send_command ssm host [command]")
  case (Inl e)
  then show ?thesis by (simp add: exec_dispatch_error)
next
  case (Inr cid)
  then show ?thesis
    by (cases "poll_rounds ssm cid host 60 0") (simp_all add: exec_timeout exec_terminal)
qed

lemma poll_rounds_first_terminal:
  "j < n \<Longrightarrow> get_command_invocation ssm cid host (k + j) = Inr r
   \<Longrightarrow> Status r \<in> set terminal_statuses
   \<Longrightarrow> (\<And>i. i < j \<Longrightarrow>
          (case get_command_invocation ssm cid host (k + i) of
             Inl e \<Rightarrow> True
           | Inr r' \<Rightarrow> Status r' \<notin> set terminal_statuses))
   \<Longrightarrow> poll_rounds ssm cid host n k = Some r"
proof (induction n arbitrary: k j)
  case 0
  then show ?case by simp
next
  case (Suc n)
  note prems = Suc.prems and IH = Suc.IH
  show ?case
  proof (cases j)
    case 0
    with prems(2,3) show ?thesis by simp
  next
    case (Suc j')
    have nt: "case get_command_invocation ssm cid host k of
                Inl e \<Rightarrow> True
              | Inr r' \<Rightarrow> Status r' \<notin> set terminal_statuses"
      using prems(4) [of 0] Suc by simp
    have "poll_rounds ssm cid host n (Suc k) = Some r"
    proof (rule IH [of j'])
      show "j' < n" using prems(1) Suc by simp
      show "get_command_invocation ssm cid host (Suc k + j') = Inr r" using prems(2) Suc by simp
      show "Status r \<in> set terminal_statuses" by (rule prems(3))
      fix i
      assume "i < j'"
      then show "case get_command_invocation ssm cid host (Suc k + i) of
                   Inl e \<Rightarrow> True
                 | Inr r' \<Rightarrow> Status r' \<notin> set terminal_statuses"
        using prems(4) [of "Suc i"] Suc by simp
    qed
    with nt show ?thesis by (auto split: sum.splits)
  qed
qed

lemma poll_rounds_none:
  "(\<And>i. i < n \<Longrightarrow>
          (case get_command_invocation ssm cid host (k + i) of
             Inl e \<Rightarrow> True
           | Inr r' \<Rightarrow> Status r' \<notin> set terminal_statuses))
   \<Longrightarrow> poll_rounds ssm cid host n k = None"
proof (induction n arbitrary: k)
  case 0
  show ?case by simp
next
  case (Suc n)
  have nt: "case get_command_invocation ssm cid host k of
              Inl e \<Rightarrow> True
            | Inr r' \<Rightarrow> Status r' \<notin> set terminal_statuses"
    using Suc.prems [of 0] by simp
  have "poll_rounds ssm cid host n (Suc k) = None"
  proof (rule Suc.IH)
    fix i
    assume "i < n"
    then show "case get_command_invocation ssm cid host (Suc k + i) of
                 Inl e \<Rightarrow> True
               | Inr r' \<Rightarrow> Status r' \<notin> set terminal_statuses"
      using Suc.prems [of "Suc i"] by simp
  qed
  with nt show ?case by (auto split: sum.splits)
qed

section \<open>Approve on a pending incident, and the background task\<close>

text \<open>
  Claim C5, with the outcome of the background task as the code has it. On an
  incident in status \<open>pending_approval\<close> that has a host and a command to run
  (the override when one is given and not empty, the stored suggestion
  otherwise), \<open>approve_incident\<close> answers \<open>executing\<close>; the item gets the status
  \<open>executing\<close>, the clock reading as \<open>updated_at\<close>, the override as
  \<open>custom_command\<close> only when one is used, and an \<open>approved\<close> timeline
  entry saying which command was used; one background task is created for the
  chosen command, and nothing has been sent yet. The task, in whatever world
  \<open>s2\<close> it runs, sends exactly that command to that host, and then:

  \<^item> when the dispatch raises, it writes the status \<open>failed\<close> and the error text
    as \<open>remediation_output\<close>;
  \<^item> when poll number \<open>j\<close>, one of the polls 0 to 59, returns an answer whose
    \<open>Status\<close> is \<open>Success\<close>, \<open>Failed\<close>, \<open>Cancelled\<close> or \<open>TimedOut\<close>, and
    no earlier poll returned such an answer (an earlier poll may have raised, or
    returned another status), it writes \<open>completed\<close> for \<open>Success\<close> and
    \<open>failed\<close> for the three others, and as \<open>remediation_output\<close> the standard
    output of that answer, or when that is absent or empty its standard error, or
    \<open>No output\<close> when that is absent;
  \<^item> when none of the polls 0 to 59 returns such an answer, it writes the status
    \<open>timeout\<close> and leaves \<open>remediation_output\<close> as it was.
\<close>

theorem approve_runs_remediation_in_background:
  assumes "table s iid = Some inc" and "status inc = Some ''pending_approval''"
    and "instance_id inc = Some host"
    and "(if truthy cc then Some (JStr (the cc)) else ai_suggestion inc) = Some command"
  shows "approve_incident now now_tl s iid cc =
     (Inr \<lparr> resp_status = ''executing'', resp_message = ''Command dispatched. Watch for updates.'' \<rparr>,
      s\<lparr> table := (table s)(iid \<mapsto>
             inc\<lparr> status := Some ''executing'', updated_at := Some now,
                  custom_command := (if truthy cc then cc else custom_command inc),
                  timeline := Some ((case timeline inc of None \<Rightarrow> [] | Some es \<Rightarrow> es)
                     @ [\<lparr> event = ''approved'', timestamp = now_tl,
                          detail = (if truthy cc then ''Custom command used''
                                    else ''AI-suggested command approved'') \<rparr>]) \<rparr>),
         tasks := tasks s @ [(iid, host, command)] \<rparr>)
   \<and> sent_commands (execute_remediation now2 now_tl2 ssm s2 iid host command)
       = sent_commands s2 @ [(host, [command])]
   \<and> (\<forall>e. send_command ssm host [command] = Inl e \<longrightarrow>
         status (item_of (table (execute_remediation now2 now_tl2 ssm s2 iid host command)) iid)
           = Some ''failed''
         \<and> remediation_output (item_of (table (execute_remediation now2 now_tl2 ssm s2 iid host command)) iid)
           = Some e)
   \<and> (\<forall>cid j r. send_command ssm host [command] = Inr cid \<and> j < 60
         \<and> get_command_invocation ssm cid host j = Inr r
         \<and> Status r \<in> {''Success'', ''Failed'', ''Cancelled'', ''TimedOut''}
         \<and> (\<forall>i<j. \<forall>r'. get_command_invocation ssm cid host i = Inr r' \<longrightarrow>
                Status r' \<notin> {''Success'', ''Failed'', ''Cancelled'', ''TimedOut''}) \<longrightarrow>
         status (item_of (table (execute_remediation now2 now_tl2 ssm s2 iid host command)) iid)
           = Some (if Status r = ''Success'' then ''completed'' else ''failed'')
         \<and> remediation_output (item_of (table (execute_remediation now2 now_tl2 ssm s2 iid host command)) iid)
           = Some (if (case StandardOutputContent r of None \<Rightarrow> [] | Some x \<Rightarrow> x) \<noteq> []
                   then (case StandardOutputContent r of None \<Rightarrow> [] | Some x \<Rightarrow> x)
                   else (case StandardErrorContent r of None \<Rightarrow> ''No output'' | Some x \<Rightarrow> x)))
   \<and> (\<forall>cid. send_command ssm host [command] = Inr cid
         \<and> (\<forall>i<60. \<forall>r'. get_command_invocation ssm cid host i = Inr r' \<longrightarrow>
                Status r' \<notin> {''Success'', ''Failed'', ''Cancelled'', ''TimedOut''}) \<longrightarrow>
         status (item_of (table (execute_remediation now2 now_tl2 ssm s2 iid host command)) iid)
           = Some ''timeout''
         \<and> remediation_output (item_of (table (execute_remediation now2 now_tl2 ssm s2 iid host command)) iid)
           = remediation_output (item_of (table s2) iid))"
proof -
  have S: "set terminal_statuses = {''Success'', ''Failed'', ''Cancelled'', ''TimedOut''}"
    by (simp add: terminal_statuses_def)
  have c: "status (item_of (table (execute_remediation now2 now_tl2 ssm s2 iid host command)) iid)
           = Some ''failed''
         \<and> remediation_output (item_of (table (execute_remediation now2 now_tl2 ssm s2 iid host command)) iid)
           = Some e"
    if "send_command ssm host [command] = Inl e" for e
    using that by (simp add: exec_dispatch_error)
  have d: "status (item_of (table (execute_remediation now2 now_tl2 ssm s2 iid host command)) iid)
           = Some (if Status r = ''Success'' then ''completed'' else ''failed'')
         \<and> remediation_output (item_of (table (execute_remediation now2 now_tl2 ssm s2 iid host command)) iid)
           = Some (if (case StandardOutputContent r of None \<Rightarrow> [] | Some x \<Rightarrow> x) \<noteq> []
                   then (case StandardOutputContent r of None \<Rightarrow> [] | Some x \<Rightarrow> x)
                   else (case StandardErrorContent r of None \<Rightarrow> ''No output'' | Some x \<Rightarrow> x))"
    if send: "send_command ssm host [command] = Inr cid" and j: "j < 60"
      and got: "get_command_invocation ssm cid host j = Inr r"
      and trm: "Status r \<in> {''Success'', ''Failed'', ''Cancelled'', ''TimedOut''}"
      and before: "\<forall>i<j. \<forall>r'. get_command_invocation ssm cid host i = Inr r' \<longrightarrow>
                Status r' \<notin> {''Success'', ''Failed'', ''Cancelled'', ''TimedOut''}"
    for cid j r
  proof -
    have "poll_rounds ssm cid host 60 0 = Some r"
    proof (rule poll_rounds_first_terminal [of j])
      show "j < 60" by (rule j)
      show "get_command_invocation ssm cid host (0 + j) = Inr r" using got by simp
      show "Status r \<in> set terminal_statuses" using trm unfolding S .
      fix i
      assume "i < j"
      with before show "case get_command_invocation ssm cid host (0 + i) of
                          Inl e \<Rightarrow> True
                        | Inr r' \<Rightarrow> Status r' \<notin> set terminal_statuses"
        unfolding S by (auto split: sum.splits)
    qed
    from exec_terminal [OF send this] show ?thesis
      by (simp add: remediation_text_def Let_def)
  qed
  have e: "status (item_of (table (execute_remediation now2 now_tl2 ssm s2 iid host command)) iid)
           = Some ''timeout''
         \<and> remediation_output (item_of (table (execute_remediation now2 now_tl2 ssm s2 iid host command)) iid)
           = remediation_output (item_of (table s2) iid)"
    if send: "send_command ssm host [command] = Inr cid"
      and never: "\<forall>i<60. \<forall>r'. get_command_invocation ssm cid host i = Inr r' \<longrightarrow>
                Status r' \<notin> {''Success'', ''Failed'', ''Cancelled'', ''TimedOut''}"
    for cid
  proof -
    have "poll_rounds ssm cid host 60 0 = None"
    proof (rule poll_rounds_none)
      fix i :: nat
      assume "i < 60"
      with never show "case get_command_invocation ssm cid host (0 + i) of
                         Inl e \<Rightarrow> True
                       | Inr r' \<Rightarrow> Status r' \<notin> set terminal_statuses"
        unfolding S by (auto split: sum.splits)
    qed
    from exec_timeout [OF send this] show ?thesis by simp
  qed
  from approve_pending [OF assms] exec_sent c d e show ?thesis by blast
qed

theorem approve_runs_remediation_in_background_witness:
  "approve_incident ''2024-01-15T10:05:00+00:00'' ''2024-01-15T10:05:01+00:00'' (example_state ''pending_approval'') ''inc-1'' (Some ''echo custom'') =
     (Inr \<lparr> resp_status = ''executing'', resp_message = ''Command dispatched. Watch for updates.'' \<rparr>,
      \<lparr> table = [''inc-1'' \<mapsto>
           (example_incident ''executing'')
             \<lparr> updated_at := Some ''2024-01-15T10:05:00+00:00'', custom_command := Some ''echo custom'',
               timeline := Some [\<lparr> event = ''approved'', timestamp = ''2024-01-15T10:05:01+00:00'',
                                   detail = ''Custom command used'' \<rparr>] \<rparr>],
        broadcasts = [], tasks = [(''inc-1'', ''i-123'', JStr ''echo custom'')], sent_commands = [] \<rparr>)
   \<and> sent_commands (execute_remediation ''2024-01-15T10:05:09+00:00'' ''2024-01-15T10:05:10+00:00'' slow_failing_ssm (example_state ''executing'')
         ''inc-1'' ''i-123'' (JStr ''echo custom''))
       = [(''i-123'', [JStr ''echo custom''])]
   \<and> status (item_of (table (execute_remediation ''2024-01-15T10:05:09+00:00'' ''2024-01-15T10:05:10+00:00'' slow_failing_ssm (example_state ''executing'')
         ''inc-1'' ''i-123'' (JStr ''echo custom''))) ''inc-1'') = Some ''failed''
   \<and> remediation_output (item_of (table (execute_remediation ''2024-01-15T10:05:09+00:00'' ''2024-01-15T10:05:10+00:00'' slow_failing_ssm
         (example_state ''executing'') ''inc-1'' ''i-123'' (JStr ''echo custom''))) ''inc-1'')
       = Some ''No space left on device''
   \<and> status (item_of (table (execute_remediation ''2024-01-15T10:05:09+00:00'' ''2024-01-15T10:05:10+00:00'' done_ssm (example_state ''executing'')
         ''inc-1'' ''i-123'' (JStr ''echo custom''))) ''inc-1'') = Some ''completed''
   \<and> remediation_output (item_of (table (execute_remediation ''2024-01-15T10:05:09+00:00'' ''2024-01-15T10:05:10+00:00'' done_ssm
         (example_state ''executing'') ''inc-1'' ''i-123'' (JStr ''echo custom''))) ''inc-1'')
       = Some ''fixed''
   \<and> status (item_of (table (execute_remediation ''2024-01-15T10:05:09+00:00'' ''2024-01-15T10:05:10+00:00'' refusing_ssm (example_state ''executing'')
         ''inc-1'' ''i-123'' (JStr ''echo custom''))) ''inc-1'') = Some ''failed''
   \<and> remediation_output (item_of (table (execute_remediation ''2024-01-15T10:05:09+00:00'' ''2024-01-15T10:05:10+00:00'' refusing_ssm
         (example_state ''executing'') ''inc-1'' ''i-123'' (JStr ''echo custom''))) ''inc-1'')
       = Some ''InvalidInstanceId''
   \<and> status (item_of (table (execute_remediation ''2024-01-15T10:05:09+00:00'' ''2024-01-15T10:05:10+00:00'' never_done_ssm (example_state ''executing'')
         ''inc-1'' ''i-123'' (JStr ''echo custom''))) ''inc-1'') = Some ''timeout''"
proof -
  have h1: "table (example_state ''pending_approval'') ''inc-1'' = Some (example_incident ''pending_approval'')"
    by (simp add: example_state_def)
  have h2: "status (example_incident ''pending_approval'') = Some ''pending_approval''"
    by (simp add: example_incident_def)
  have h3: "instance_id (example_incident ''pending_approval'') = Some ''i-123''"
    by (simp add: example_incident_def)
  have h4: "(if truthy (Some ''echo custom'') then Some (JStr (the (Some ''echo custom'')))
             else ai_suggestion (example_incident ''pending_approval'')) = Some (JStr ''echo custom'')"
    by simp
  note t = approve_runs_remediation_in_background
    [OF h1 h2 h3 h4, where now = "''2024-01-15T10:05:00+00:00''" and now_tl = "''2024-01-15T10:05:01+00:00''" and ?now2.0 = "''2024-01-15T10:05:09+00:00''" and ?now_tl2.0 = "''2024-01-15T10:05:10+00:00''"
       and ?s2.0 = "example_state ''executing''"]
  have a: "approve_incident ''2024-01-15T10:05:00+00:00'' ''2024-01-15T10:05:01+00:00'' (example_state ''pending_approval'') ''inc-1'' (Some ''echo custom'') =
     (Inr \<lparr> resp_status = ''executing'', resp_message = ''Command dispatched. Watch for updates.'' \<rparr>,
      \<lparr> table = [''inc-1'' \<mapsto>
           (example_incident ''executing'')
             \<lparr> updated_at := Some ''2024-01-15T10:05:00+00:00'', custom_command := Some ''echo custom'',
               timeline := Some [\<lparr> event = ''approved'', timestamp = ''2024-01-15T10:05:01+00:00'',
                                   detail = ''Custom command used'' \<rparr>] \<rparr>],
        broadcasts = [], tasks = [(''inc-1'', ''i-123'', JStr ''echo custom'')], sent_commands = [] \<rparr>)"
    using t [of done_ssm, THEN conjunct1]
    by (simp add: example_state_def example_incident_def)
  have b: "sent_commands (execute_remediation ''2024-01-15T10:05:09+00:00'' ''2024-01-15T10:05:10+00:00'' slow_failing_ssm (example_state ''executing'')
         ''inc-1'' ''i-123'' (JStr ''echo custom''))
       = [(''i-123'', [JStr ''echo custom''])]"
    using t [of slow_failing_ssm, THEN conjunct2, THEN conjunct1]
    by (simp add: example_state_def)
  have c: "status (item_of (table (execute_remediation ''2024-01-15T10:05:09+00:00'' ''2024-01-15T10:05:10+00:00'' slow_failing_ssm (example_state ''executing'')
         ''inc-1'' ''i-123'' (JStr ''echo custom''))) ''inc-1'') = Some ''failed''
   \<and> remediation_output (item_of (table (execute_remediation ''2024-01-15T10:05:09+00:00'' ''2024-01-15T10:05:10+00:00'' slow_failing_ssm
         (example_state ''executing'') ''inc-1'' ''i-123'' (JStr ''echo custom''))) ''inc-1'')
       = Some ''No space left on device''"
    using t [of slow_failing_ssm, THEN conjunct2, THEN conjunct2, THEN conjunct2, THEN conjunct1,
             rule_format, of "''cmd-2''" 2
               "\<lparr> Status = ''Failed'', StandardOutputContent = Some [],
                  StandardErrorContent = Some ''No space left on device'' \<rparr>"]
    by (auto simp: slow_failing_ssm_def)
  have d: "status (item_of (table (execute_remediation ''2024-01-15T10:05:09+00:00'' ''2024-01-15T10:05:10+00:00'' done_ssm (example_state ''executing'')
         ''inc-1'' ''i-123'' (JStr ''echo custom''))) ''inc-1'') = Some ''completed''
   \<and> remediation_output (item_of (table (execute_remediation ''2024-01-15T10:05:09+00:00'' ''2024-01-15T10:05:10+00:00'' done_ssm
         (example_state ''executing'') ''inc-1'' ''i-123'' (JStr ''echo custom''))) ''inc-1'')
       = Some ''fixed''"
    using t [of done_ssm, THEN conjunct2, THEN conjunct2, THEN conjunct2, THEN conjunct1,
             rule_format, of "''cmd-1''" 0
               "\<lparr> Status = ''Success'', StandardOutputContent = Some ''fixed'',
                  StandardErrorContent = None \<rparr>"]
    by (simp add: done_ssm_def)
  have e: "status (item_of (table (execute_remediation ''2024-01-15T10:05:09+00:00'' ''2024-01-15T10:05:10+00:00'' refusing_ssm (example_state ''executing'')
         ''inc-1'' ''i-123'' (JStr ''echo custom''))) ''inc-1'') = Some ''failed''
   \<and> remediation_output (item_of (table (execute_remediation ''2024-01-15T10:05:09+00:00'' ''2024-01-15T10:05:10+00:00'' refusing_ssm
         (example_state ''executing'') ''inc-1'' ''i-123'' (JStr ''echo custom''))) ''inc-1'')
       = Some ''InvalidInstanceId''"
    using t [of refusing_ssm, THEN conjunct2, THEN conjunct2, THEN conjunct1,
             rule_format, of "''InvalidInstanceId''"]
    by (simp add: refusing_ssm_def)
  have f: "status (item_of (table (execute_remediation ''2024-01-15T10:05:09+00:00'' ''2024-01-15T10:05:10+00:00'' never_done_ssm (example_state ''executing'')
         ''inc-1'' ''i-123'' (JStr ''echo custom''))) ''inc-1'') = Some ''timeout''"
    using t [of never_done_ssm, THEN conjunct2, THEN conjunct2, THEN conjunct2, THEN conjunct2,
             rule_format, of "''cmd-1''"]
    by (simp add: never_done_ssm_def)
  from a b c d e f show ?thesis by blast
qed

text \<open>
  Claim C5 as stated fails: when no poll returns a terminal status, the
  background task writes the status \<open>timeout\<close>, neither \<open>completed\<close> nor
  \<open>failed\<close>, and leaves \<open>remediation_output\<close> as it was.
\<close>

theorem background_task_timeout_counterexample:
  "status (item_of (table (execute_remediation ''2024-01-15T10:07:05+00:00'' ''2024-01-15T10:07:06+00:00''
       never_done_ssm (example_state ''executing'') ''inc-1'' ''i-123'' (JStr ''echo fixed''))) ''inc-1'')
     = Some ''timeout''
   \<and> remediation_output (item_of (table (execute_remediation ''2024-01-15T10:07:05+00:00''
       ''2024-01-15T10:07:06+00:00''
       never_done_ssm (example_state ''executing'') ''inc-1'' ''i-123'' (JStr ''echo fixed''))) ''inc-1'')
     = Some []"
proof -
  have "send_command never_done_ssm ''i-123'' [JStr ''echo fixed''] = Inr ''cmd-1''"
    by (simp add: never_done_ssm_def)
  from exec_timeout [OF this never_done_polls] show ?thesis
    by (simp add: example_state_def example_incident_def item_of_def)
qed

section \<open>Reject\<close>

text \<open>
  Claim C2 at an unknown id: \<open>reject_incident\<close> on \<open>inc-9\<close>, which the table
  does not hold, answers \<open>rejected\<close> and leaves a new item under that id.
\<close>

theorem reject_incident_unknown_id:
  "table (example_state ''pending_approval'') ''inc-9'' = None
   \<and> fst (reject_incident ''2024-01-15T10:05:00+00:00'' ''2024-01-15T10:05:01+00:00''
         (example_state ''pending_approval'') ''inc-9'') = Inr ''rejected''
   \<and> table (snd (reject_incident ''2024-01-15T10:05:00+00:00'' ''2024-01-15T10:05:01+00:00''
         (example_state ''pending_approval'') ''inc-9'')) ''inc-9''
     = Some (empty_item\<lparr> status := Some ''rejected'', updated_at := Some ''2024-01-15T10:05:00+00:00'',
               timeline := Some [\<lparr> event = ''rejected'', timestamp = ''2024-01-15T10:05:01+00:00'',
                                   detail = ''Operator rejected remediation'' \<rparr>] \<rparr>)"
  by (simp add: reject_incident_def Let_def update_item_def append_timeline_def
        example_state_def empty_item_def)

lemma reject_incident_result:
  "fst (reject_incident now now_tl s iid) = Inr ''rejected''
   \<and> item_of (table (snd (reject_incident now now_tl s iid))) iid =
       (item_of (table s) iid)\<lparr> status := Some ''rejected'', updated_at := Some now,
          timeline := Some ((case timeline (item_of (table s) iid) of None \<Rightarrow> [] | Some es \<Rightarrow> es)
             @ [\<lparr> event = ''rejected'', timestamp = now_tl,
                  detail = ''Operator rejected remediation'' \<rparr>]) \<rparr>
   \<and> tasks (snd (reject_incident now now_tl s iid)) = tasks s
   \<and> sent_commands (snd (reject_incident now now_tl s iid)) = sent_commands s"
  by (simp add: reject_incident_def Let_def item_of_append_timeline item_of_update_item)

section \<open>The updated_at attribute\<close>

text \<open>
  Claim C3 as stated fails at the timeline append: \<open>append_timeline\<close>, at a
  clock reading of 10:09, changes the timeline of the stored incident and leaves
  its \<open>updated_at\<close> at 10:00.
\<close>

theorem append_timeline_updated_at_counterexample:
  "timeline (item_of (append_timeline ''2024-01-15T10:09:00+00:00''
        (table (example_state ''completed'')) ''inc-1'' ''completed'' ''fixed'') ''inc-1'')
     = Some [\<lparr> event = ''completed'', timestamp = ''2024-01-15T10:09:00+00:00'', detail = ''fixed'' \<rparr>]
   \<and> timeline (item_of (table (example_state ''completed'')) ''inc-1'') = Some []
   \<and> updated_at (item_of (append_timeline ''2024-01-15T10:09:00+00:00''
        (table (example_state ''completed'')) ''inc-1'' ''completed'' ''fixed'') ''inc-1'')
     = Some ''2024-01-15T10:00:00+00:00''"
  by (simp add: item_of_append_timeline) (simp add: item_of_def example_state_def example_incident_def)

text \<open>
  Claim C3, amended. Every write of a status sets \<open>updated_at\<close> to the clock
  reading of that write: \<open>write_incident\<close> and \<open>update_incident_status\<close> of the
  alarm handler, \<open>reject_incident\<close>, the background task
  \<open>execute_remediation\<close> on each of its paths, and \<open>approve_incident\<close>
  whenever it answers. A timeline append changes the timeline and leaves
  \<open>updated_at\<close> as it was. So \<open>updated_at\<close> never moves to anything but a
  clock reading, and it is not advanced by the timeline appends.
\<close>

theorem status_writes_set_updated_at:
  "updated_at (item_of (write_incident now t iid a_name a_desc host diag suggestion reasoning st) iid) = Some now
   \<and> updated_at (item_of (update_incident_status now t iid st output) iid) = Some now
   \<and> updated_at (item_of (table (snd (reject_incident now now_tl s iid))) iid) = Some now
   \<and> updated_at (item_of (table (execute_remediation now now_tl ssm s iid host command)) iid) = Some now
   \<and> (\<forall>r. fst (approve_incident now now_tl s iid cc) = Inr r \<longrightarrow>
         updated_at (item_of (table (snd (approve_incident now now_tl s iid cc))) iid) = Some now)
   \<and> updated_at (item_of (append_timeline now_tl t iid ev det) iid) = updated_at (item_of t iid)
   \<and> timeline (item_of (append_timeline now_tl t iid ev det) iid) \<noteq> timeline (item_of t iid)"
proof -
  have a: "updated_at (item_of (write_incident now t iid a_name a_desc host diag suggestion reasoning st) iid) = Some now"
    by (simp add: write_incident_def item_of_def)
  have b: "updated_at (item_of (update_incident_status now t iid st output) iid) = Some now"
    by (simp add: update_incident_status_def item_of_update_item)
  have c: "updated_at (item_of (table (snd (reject_incident now now_tl s iid))) iid) = Some now"
    by (simp add: reject_incident_result)
  have d: "\<forall>r. fst (approve_incident now now_tl s iid cc) = Inr r \<longrightarrow>
         updated_at (item_of (table (snd (approve_incident now now_tl s iid cc))) iid) = Some now"
    by (auto simp: approve_incident_def Let_def item_of_append_timeline item_of_update_item
          split: option.splits if_splits)
  have e: "updated_at (item_of (append_timeline now_tl t iid ev det) iid) = updated_at (item_of t iid)"
    by (simp add: item_of_append_timeline)
  have f: "timeline (item_of (append_timeline now_tl t iid ev det) iid) \<noteq> timeline (item_of t iid)"
    by (simp add: item_of_append_timeline split: option.splits)
  from a b c d e f exec_updated_at show ?thesis by blast
qed

theorem status_writes_set_updated_at_witness:
  "fst (approve_incident ''2024-01-15T10:05:00+00:00'' ''2024-01-15T10:05:01+00:00'' (example_state ''pending_approval'') ''inc-1'' None)
     = Inr \<lparr> resp_status = ''executing'', resp_message = ''Command dispatched. Watch for updates.'' \<rparr>
   \<and> updated_at (item_of (table (snd (approve_incident ''2024-01-15T10:05:00+00:00'' ''2024-01-15T10:05:01+00:00''
        (example_state ''pending_approval'') ''inc-1'' None))) ''inc-1'') = Some ''2024-01-15T10:05:00+00:00''"
proof -
  have "fst (approve_incident ''2024-01-15T10:05:00+00:00'' ''2024-01-15T10:05:01+00:00'' (example_state ''pending_approval'') ''inc-1'' None)
     = Inr \<lparr> resp_status = ''executing'', resp_message = ''Command dispatched. Watch for updates.'' \<rparr>"
    by (simp add: approve_incident_def Let_def example_state_def example_incident_def)
  with status_writes_set_updated_at
    [where now = "''2024-01-15T10:05:00+00:00''" and now_tl = "''2024-01-15T10:05:01+00:00''"
       and s = "example_state ''pending_approval''" and iid = "''inc-1''" and cc = None]
  show ?thesis by blast
qed

section \<open>Target resolution\<close>

lemma unhealthy_loop_filter:
  "unhealthy_loop ds acc =
     acc @ map TargetId (filter (\<lambda>d. TargetHealthState d \<noteq> ''healthy'' \<and> startswith (TargetId d) ''i-'') ds)"
  by (induction ds arbitrary: acc) simp_all

lemma dimensions_dict_map_of: "dimensions_dict ds m = m ++ map_of (rev ds)"
proof (induction ds arbitrary: m)
  case Nil
  show ?case by simp
next
  case (Cons p ds)
  obtain k v where p: "p = (k, v)" by (cases p)
  have e: "m(k \<mapsto> v) ++ map_of (rev ds) = m ++ map_of (rev ((k, v) # ds))"
    by (rule ext) (simp add: map_add_def split: option.splits)
  show ?case unfolding p by (simp only: dimensions_dict.simps Cons.IH e)
qed

lemma alarm_dimension_last: "alarm_dimension a k = map_of (rev (Dimensions a)) k"
  by (simp add: alarm_dimension_def dimensions_dict_map_of)

text \<open>
  Claim C1 as stated fails: an alarm that carries the dimension \<open>InstanceId\<close>
  with the value \<open>i-abc\<close> next to a group dimension resolves to the members of
  the group in service, and next to a target-group dimension to the targets of
  that group that are not healthy; \<open>i-abc\<close> is not in the result.
\<close>

theorem instance_dimension_is_last_counterexample:
  "get_target_instances example_resolver
      (example_alarm [(''InstanceId'', ''i-abc''), (''AutoScalingGroupName'', ''web-asg'')])
     = [''i-1'']
   \<and> get_target_instances example_resolver
      (example_alarm [(''InstanceId'', ''i-abc''), (''TargetGroup'', ''targetgroup/web/abc'')])
     = [''i-7'', ''i-9'']"
  by (simp add: get_target_instances_def Let_def example_resolver_def example_alarm_def
        get_unhealthy_targets_def resolve_account_id_def resolve_region_def)

text \<open>
  Claim C1, amended to the order of the code. The first dimension with a value
  that is not empty decides, in the order \<open>AutoScalingGroupName\<close>,
  \<open>TargetGroup\<close>, \<open>InstanceId\<close>. A group resolves to the instances of the first
  group returned that are \<open>InService\<close>, and to nothing when no group is returned
  or the lookup raises. A target group resolves to nothing when no account id
  can be found, and otherwise to the targets whose state is not \<open>healthy\<close> and
  whose id starts with \<open>i-\<close>, in the order of the answer, and to nothing when
  the lookup raises. An \<open>InstanceId\<close> resolves to that one host only when the
  two other dimensions are absent or empty. Without any of the three the result
  is empty.
\<close>

theorem get_target_instances_resolution_order:
  "(truthy (alarm_dimension a ''AutoScalingGroupName'') \<longrightarrow>
      get_target_instances aws a =
        (case describe_auto_scaling_groups aws (the (alarm_dimension a ''AutoScalingGroupName'')) of
           Inl e \<Rightarrow> []
         | Inr [] \<Rightarrow> []
         | Inr (g # gs) \<Rightarrow> map InstanceId (filter (\<lambda>i. LifecycleState i = ''InService'') g)))
   \<and> (\<not> truthy (alarm_dimension a ''AutoScalingGroupName'')
        \<and> truthy (alarm_dimension a ''TargetGroup'') \<longrightarrow>
      get_target_instances aws a =
        (if \<not> truthy (resolve_account_id a) then []
         else case describe_target_health aws
                     (''arn:aws:elasticloadbalancing:'' @ resolve_region aws a @ '':''
                      @ the (resolve_account_id a) @ '':'' @ the (alarm_dimension a ''TargetGroup'')) of
                Inl e \<Rightarrow> []
              | Inr ds \<Rightarrow>
                  map TargetId (filter (\<lambda>d. TargetHealthState d \<noteq> ''healthy''
                                           \<and> startswith (TargetId d) ''i-'') ds)))
   \<and> (\<not> truthy (alarm_dimension a ''AutoScalingGroupName'')
        \<and> \<not> truthy (alarm_dimension a ''TargetGroup'')
        \<and> truthy (alarm_dimension a ''InstanceId'') \<longrightarrow>
      get_target_instances aws a = [the (alarm_dimension a ''InstanceId'')])
   \<and> (\<not> truthy (alarm_dimension a ''AutoScalingGroupName'')
        \<and> \<not> truthy (alarm_dimension a ''TargetGroup'')
        \<and> \<not> truthy (alarm_dimension a ''InstanceId'') \<longrightarrow>
      get_target_instances aws a = [])"
  by (simp add: get_target_instances_def alarm_dimension_def Let_def get_unhealthy_targets_def
        unhealthy_loop_filter split: sum.splits)

theorem get_target_instances_resolution_order_witness:
  "get_target_instances example_resolver (example_alarm [(''AutoScalingGroupName'', ''web-asg'')])
     = [''i-1'']
   \<and> get_target_instances example_resolver (example_alarm [(''AutoScalingGroupName'', ''lost-asg'')])
     = []
   \<and> get_target_instances example_resolver (example_alarm [(''TargetGroup'', ''targetgroup/web/abc'')])
     = [''i-7'', ''i-9'']
   \<and> get_target_instances example_resolver (example_alarm [(''TargetGroup'', ''targetgroup/web/xyz'')])
     = []
   \<and> get_target_instances example_resolver (example_alarm [(''InstanceId'', ''i-abc'')])
     = [''i-abc'']
   \<and> get_target_instances example_resolver (example_alarm [])
     = []"
  using
    get_target_instances_resolution_order
      [of "example_alarm [(''AutoScalingGroupName'', ''web-asg'')]" example_resolver]
    get_target_instances_resolution_order
      [of "example_alarm [(''AutoScalingGroupName'', ''lost-asg'')]" example_resolver]
    get_target_instances_resolution_order
      [of "example_alarm [(''TargetGroup'', ''targetgroup/web/abc'')]" example_resolver]
    get_target_instances_resolution_order
      [of "example_alarm [(''TargetGroup'', ''targetgroup/web/xyz'')]" example_resolver]
    get_target_instances_resolution_order
      [of "example_alarm [(''InstanceId'', ''i-abc'')]" example_resolver]
    get_target_instances_resolution_order
      [of "example_alarm []" example_resolver]
  by (simp add: alarm_dimension_def example_alarm_def example_resolver_def
        resolve_account_id_def resolve_region_def)

section \<open>Completion polling in the alarm handler\<close>








section \<open>A diagnostic command that cannot be dispatched\<close>

text \<open>
  Claim C6. For an alarm in state \<open>ALARM\<close> (or without a state) that resolves
  to the one host \<open>host\<close> and whose name is classified, when the dispatch of
  the diagnostic commands gives no command id, \<open>lambda_handler\<close> returns the
  answer 200 with an empty list of results, without raising. The world it leaves
  differs from the one it found by one clock reading (for the incident id) and
  one dispatch attempt, the diagnostic one: the table of incidents, the calls of
  the advisor and the number of polls are as they were.
\<close>

theorem failed_diagnostic_dispatch_skips_target:
  assumes "NewStateValue a = None \<or> NewStateValue a = Some ''ALARM''"
    and "get_target_instances (resolver env) a = [host]"
    and "classify (case AlarmName a of None \<Rightarrow> ''Unknown'' | Some n \<Rightarrow> n) = Some (cmds, ty)"
    and "\<not> truthy (send_ssm_command (ssm_client env) host (map JStr cmds))"
  shows "lambda_handler env (Some a) s =
     (Inr \<lparr> statusCode = 200, body = BodyResults [] \<rparr>,
      s\<lparr> clock_reads := Suc (clock_reads s),
         ssm_sent := ssm_sent s @ [(host, map JStr cmds)] \<rparr>)"
proof -
  have "process_target env (case AlarmName a of None \<Rightarrow> ''Unknown'' | Some n \<Rightarrow> n)
          (case AlarmDescription a of None \<Rightarrow> [] | Some d \<Rightarrow> d) host s =
        (Inr None, s\<lparr> clock_reads := Suc (clock_reads s),
                      ssm_sent := ssm_sent s @ [(host, map JStr cmds)] \<rparr>)"
    using assms(3,4) by (simp add: process_target_def Let_def)
  with assms(1,2) show ?thesis
    by (auto simp: lambda_handler_def Let_def)
qed

theorem failed_diagnostic_dispatch_skips_target_witness:
  "lambda_handler (example_env refusing_ssm) (Some (example_alarm [(''InstanceId'', ''i-abc'')])) example_world =
     (Inr \<lparr> statusCode = 200, body = BodyResults [] \<rparr>,
      \<lparr> incidents = Map.empty, clock_reads = 1,
        ssm_sent = [(''i-abc'', [JStr ''df -h /'', JStr ''ls -lRh /var/log/ | head -n 20''])],
        advisor_calls = [], polls_made = 0 \<rparr>)"
proof -
  have 1: "NewStateValue (example_alarm [(''InstanceId'', ''i-abc'')]) = None
           \<or> NewStateValue (example_alarm [(''InstanceId'', ''i-abc'')]) = Some ''ALARM''"
    by (simp add: example_alarm_def)
  have 2: "get_target_instances (resolver (example_env refusing_ssm))
             (example_alarm [(''InstanceId'', ''i-abc'')]) = [''i-abc'']"
    by (simp add: get_target_instances_def Let_def example_alarm_def example_env_def)
  have 3: "classify (case AlarmName (example_alarm [(''InstanceId'', ''i-abc'')]) of
                       None \<Rightarrow> ''Unknown'' | Some n \<Rightarrow> n)
           = Some ([''df -h /'', ''ls -lRh /var/log/ | head -n 20''], ''Disk Critical'')"
    by (simp add: classify_def example_alarm_def)
  have 4: "\<not> truthy (send_ssm_command (ssm_client (example_env refusing_ssm)) ''i-abc''
             (map JStr [''df -h /'', ''ls -lRh /var/log/ | head -n 20'']))"
    by (simp add: send_ssm_command_def example_env_def refusing_ssm_def)
  from failed_diagnostic_dispatch_skips_target [OF 1 2 3 4, of example_world]
  show ?thesis by (simp add: example_world_def)
qed

section \<open>Aggregate statistics\<close>






lemma round_half_even_tie:
  "round_half_even (of_int n + 1 / 2) = (if even n then n else n + 1)"
proof -
  have "\<lfloor>(of_int n + 1 / 2 :: rat)\<rfloor> = n"
    by (rule floor_unique) simp_all
  then show ?thesis
    by (simp add: round_half_even_def Let_def)
qed














section \<open>The remediation advisor\<close>

lemma startswith_iff: "startswith s p \<longleftrightarrow> (\<exists>r. s = p @ r)"
  by (induction s p rule: startswith.induct) auto



lemma generated_text_empty: "generated_text (JObj []) = None"
  by (simp add: generated_text_def)



lemma get_log_bucket_found:
  "list_buckets env = Inr names \<Longrightarrow>
   get_log_bucket env =
     (case filter (\<lambda>n. \<exists>r. n = ''sre-incident-logs-archive'' @ r) names of
        [] \<Rightarrow> ''sre-incident-logs-archive''
      | n # ns \<Rightarrow> n)"
proof (induction names arbitrary: env)
  case Nil
  then show ?case by (simp add: get_log_bucket_def)
next
  case (Cons n names)
  from Cons.IH [of "env\<lparr> list_buckets := Inr names \<rparr>"] Cons.prems show ?case
    by (simp add: get_log_bucket_def startswith_iff split: option.splits list.splits)
qed

lemma get_log_bucket_error:
  "list_buckets env = Inl e \<Longrightarrow> get_log_bucket env = ''sre-incident-logs-archive''"
  by (simp add: get_log_bucket_def)

lemma fallback_remediation_table:
  "fallback_remediation env ''Disk Critical'' =
     JObj [(''reasoning'', JStr ''Disk usage critical. Archiving garbage.log to S3 and clearing file to free space.''),
           (''command'', JStr (''export PATH=$PATH:/usr/local/bin; aws s3 cp /var/log/garbage.log s3://''
                               @ get_log_bucket env
                               @ ''/garbage.log-$(date +%s) && > /var/log/garbage.log''))]
   \<and> fallback_remediation env ''Nginx Down'' =
     JObj [(''reasoning'', JStr ''Nginx service is down. Restarting service to restore availability.''),
           (''command'', JStr ''systemctl restart nginx'')]"
  by (simp add: fallback_remediation_def)





end
